theory Spec2Isabelle
  imports Complex_Main "HOL-Library.AList"
begin

section \<open>The GSS dashboard (app.py): data model\<close>

text \<open>
  The program is one Python module built on pandas, plotly and Dash. The embedding follows the
  module statement by statement. What the libraries do is written out as HOL functions, each
  named after the call it stands for; the module's own statements are the definitions of
  the later sections.

  Conventions of the embedding:
  \<^item> a pandas cell is a \<open>cell\<close>; \<open>NaN\<close> is the missing value; numbers are exact rationals
    (float64 rounding error is not represented);
  \<^item> a Series is its list of values together with the categories of a categorical dtype;
  \<^item> a DataFrame is the ordered list of its named columns (the row index is not represented:
    rows are positions);
  \<^item> an exception is a value of \<open>py_error\<close>;
  \<^item> DataFrame objects live in a store, since the module assigns columns in place.
\<close>

datatype py_error =
    KeyError string
  | NameError string
  | AttributeError string
  | TypeError
  | ValueError

datatype cell = NaN | Str string | Num rat | Ivl rat rat

datatype series = Series (cats: "cell list option") (vals: "cell list")

type_synonym frame = "(string \<times> series) list"

text \<open>
  Some behaviour is fixed by the installed libraries and not by the module: which text the CSV
  reader takes for a number (\<open>csv_number\<close>), which text Python's \<open>float\<close> accepts
  (\<open>py_float\<close>), the NA markers pandas recognises by default (\<open>default_na\<close>), and the
  default of \<open>observed\<close> in \<open>DataFrame.groupby\<close> (False up to pandas 2, True from pandas 3).
  They are parameters of the model.
\<close>

record runtime =
  csv_number :: "string \<Rightarrow> rat option"
  py_float :: "string \<Rightarrow> rat option"
  default_na :: "string list"
  groupby_observed :: bool

subsection \<open>Exceptions\<close>

definition rbind :: "py_error + 'a \<Rightarrow> ('a \<Rightarrow> py_error + 'b) \<Rightarrow> py_error + 'b" where
  "rbind m f = (case m of Inl e \<Rightarrow> Inl e | Inr x \<Rightarrow> f x)"

fun rmap :: "('a \<Rightarrow> py_error + 'b) \<Rightarrow> 'a list \<Rightarrow> py_error + 'b list" where
  "rmap f [] = Inr []"
| "rmap f (x # xs) = rbind (f x) (\<lambda>y. rbind (rmap f xs) (\<lambda>ys. Inr (y # ys)))"

subsection \<open>Strings\<close>

text \<open>\<open>str.replace(old, new)\<close>: non-overlapping occurrences, left to right.\<close>

fun replace_from :: "string \<Rightarrow> string \<Rightarrow> nat \<Rightarrow> string \<Rightarrow> string" where
  "replace_from old new k [] = []"
| "replace_from old new (Suc k) (c # cs) = replace_from old new k cs"
| "replace_from old new 0 (c # cs) =
     (if take (length old) (c # cs) = old
      then new @ replace_from old new (length old - 1) cs
      else c # replace_from old new 0 cs)"

definition str_replace :: "string \<Rightarrow> string \<Rightarrow> string \<Rightarrow> string" where
  "str_replace old new s =
     (if old = [] then new @ concat (map (\<lambda>c. c # new) s) else replace_from old new 0 s)"

definition is_lower :: "char \<Rightarrow> bool" where
  "is_lower c = (97 \<le> (of_char c :: nat) \<and> (of_char c :: nat) \<le> 122)"

definition is_upper :: "char \<Rightarrow> bool" where
  "is_upper c = (65 \<le> (of_char c :: nat) \<and> (of_char c :: nat) \<le> 90)"

definition to_upper :: "char \<Rightarrow> char" where
  "to_upper c = (if is_lower c then char_of ((of_char c :: nat) - 32) else c)"

definition to_lower :: "char \<Rightarrow> char" where
  "to_lower c = (if is_upper c then char_of ((of_char c :: nat) + 32) else c)"

text \<open>
  \<open>str.title()\<close> on ASCII text: a cased character is upper-cased when the character before
  it is not cased, and lower-cased otherwise. The flag is CPython's \<open>previous_is_cased\<close>.
\<close>

fun title_from :: "bool \<Rightarrow> string \<Rightarrow> string" where
  "title_from prev [] = []"
| "title_from prev (c # cs) =
     (if is_lower c then (if prev then c else to_upper c) # title_from True cs
      else if is_upper c then (if prev then to_lower c else c) # title_from True cs
      else c # title_from False cs)"

definition title :: "string \<Rightarrow> string" where
  "title s = title_from False s"

text \<open>String comparison by code point, as Python's \<open><=\<close> on \<open>str\<close>.\<close>

fun str_le :: "string \<Rightarrow> string \<Rightarrow> bool" where
  "str_le [] t = True"
| "str_le (a # s) [] = False"
| "str_le (a # s) (b # t) =
     (if a = b then str_le s t else (of_char a :: nat) < of_char b)"

subsection \<open>Ordering of group keys\<close>

text \<open>
  \<open>groupby(sort=True)\<close> sorts the observed keys. Numbers sort by value, strings by code point,
  intervals by their end points; in a column of mixed kinds pandas puts numbers before strings.
\<close>

fun rank :: "cell \<Rightarrow> nat" where
  "rank (Num a) = 0"
| "rank (Str a) = 1"
| "rank (Ivl a b) = 2"
| "rank NaN = 3"

fun cell_le :: "cell \<Rightarrow> cell \<Rightarrow> bool" where
  "cell_le (Num a) (Num b) = (a \<le> b)"
| "cell_le (Str a) (Str b) = str_le a b"
| "cell_le (Ivl a b) (Ivl c d) = (a < c \<or> (a = c \<and> b \<le> d))"
| "cell_le x y = (rank x \<le> rank y)"

fun insort_cell :: "cell \<Rightarrow> cell list \<Rightarrow> cell list" where
  "insort_cell x [] = [x]"
| "insort_cell x (y # ys) = (if cell_le x y then x # y # ys else y # insort_cell x ys)"

definition sort_cells :: "cell list \<Rightarrow> cell list" where
  "sort_cells xs = foldr insort_cell xs []"

subsection \<open>DataFrame operations\<close>

definition columns :: "frame \<Rightarrow> string list" where
  "columns df = map fst df"

definition nrows :: "frame \<Rightarrow> nat" where
  "nrows df = (case df of [] \<Rightarrow> 0 | (n, s) # rest \<Rightarrow> length (vals s))"

text \<open>
  What pandas guarantees of every DataFrame: the columns have one length, and a categorical
  column has distinct categories, none of them missing, and takes its values among them.
\<close>

definition wf_series :: "series \<Rightarrow> bool" where
  "wf_series s =
     (case cats s of
        None \<Rightarrow> True
      | Some cs \<Rightarrow> distinct cs \<and> NaN \<notin> set cs \<and> list_all (\<lambda>v. v \<in> set (NaN # cs)) (vals s))"

definition wf_frame :: "frame \<Rightarrow> bool" where
  "wf_frame df = list_all (\<lambda>(n, s). length (vals s) = nrows df \<and> wf_series s) df"

text \<open>\<open>df[name]\<close>\<close>

definition get_column :: "frame \<Rightarrow> string \<Rightarrow> py_error + series" where
  "get_column df name =
     (case map_of df name of None \<Rightarrow> Inl (KeyError name) | Some s \<Rightarrow> Inr s)"

text \<open>
  \<open>df[name] = s\<close> on the frame object: replaces the column of that name, or appends a new one.
  In the module the assigned series is always computed from a column of the same frame, so
  it has the frame's rows.
\<close>

definition set_column :: "frame \<Rightarrow> string \<Rightarrow> series \<Rightarrow> frame" where
  "set_column df name s = AList.update name s df"

text \<open>\<open>df[[c1, c2, ...]]\<close>: a new frame of the named columns, in the order asked for.\<close>

definition select_columns :: "frame \<Rightarrow> string list \<Rightarrow> py_error + frame" where
  "select_columns df cs = rmap (\<lambda>c. rbind (get_column df c) (\<lambda>s. Inr (c, s))) cs"

text \<open>\<open>df.rename(mapping, axis=1)\<close>: names absent from the mapping stay (errors='ignore').\<close>

definition rename_columns :: "(string \<times> string) list \<Rightarrow> frame \<Rightarrow> frame" where
  "rename_columns m df =
     map (\<lambda>(n, s). (case map_of m n of None \<Rightarrow> n | Some n' \<Rightarrow> n', s)) df"

text \<open>\<open>dropna\<close>: a row stays when none of the inspected columns is missing in it.\<close>

definition notna :: "series \<Rightarrow> bool list" where
  "notna s = map (\<lambda>v. v \<noteq> NaN) (vals s)"

definition and_mask :: "bool list \<Rightarrow> bool list \<Rightarrow> bool list" where
  "and_mask m1 m2 = map (\<lambda>(a, b). a \<and> b) (zip m1 m2)"

definition keep_rows :: "bool list \<Rightarrow> series \<Rightarrow> series" where
  "keep_rows m s = Series (cats s) (map fst (filter snd (zip (vals s) m)))"

definition complete_mask :: "frame \<Rightarrow> series list \<Rightarrow> bool list" where
  "complete_mask df ss = foldr (\<lambda>s m. and_mask (notna s) m) ss (replicate (nrows df) True)"

definition dropna_subset :: "frame \<Rightarrow> string list \<Rightarrow> py_error + frame" where
  "dropna_subset df cols =
     rbind (rmap (get_column df) cols) (\<lambda>ss.
       Inr (map (\<lambda>(n, s). (n, keep_rows (complete_mask df ss) s)) df))"

definition dropna :: "frame \<Rightarrow> frame" where
  "dropna df = map (\<lambda>(n, s). (n, keep_rows (complete_mask df (map snd df)) s)) df"

subsection \<open>pd.cut\<close>

text \<open>
  \<open>pd.cut\<close> places a value by \<open>bins.searchsorted(x, side='left')\<close>: the number of edges
  strictly below it. With \<open>right=True\<close> and \<open>include_lowest=False\<close> position 0 (at or below
  the first edge) and position \<open>len(bins)\<close> (above the last edge) give a missing value; position
  \<open>k\<close> otherwise is the bin \<open>(bins[k-1], bins[k]]\<close>, whose category is \<open>k-1\<close>.
\<close>

definition searchsorted_left :: "rat list \<Rightarrow> rat \<Rightarrow> nat" where
  "searchsorted_left bins v = length (takeWhile (\<lambda>b. b < v) bins)"

definition cut_cell :: "rat list \<Rightarrow> cell list \<Rightarrow> cell \<Rightarrow> py_error + cell" where
  "cut_cell bins labels c =
     (case c of
        NaN \<Rightarrow> Inr NaN
      | Num v \<Rightarrow>
          (let k = searchsorted_left bins v
           in if k = 0 \<or> k = length bins then Inr NaN else Inr (labels ! (k - 1)))
      | Str s \<Rightarrow> Inl TypeError
      | Ivl a b \<Rightarrow> Inl TypeError)"

text \<open>
  \<open>pd.cut(s, bins=[...], labels=[...], right=True)\<close>. The number of labels must be one less
  than the number of edges (ValueError otherwise); the result is categorical with the labels
  as categories.
\<close>

definition cut_bins :: "series \<Rightarrow> rat list \<Rightarrow> string list \<Rightarrow> py_error + series" where
  "cut_bins s bins labels =
     (if Suc (length labels) \<noteq> length bins then Inl ValueError
      else rbind (rmap (cut_cell bins (map Str labels)) (vals s)) (\<lambda>vs.
             Inr (Series (Some (map Str labels)) vs)))"

subsection \<open>groupby(...).size()\<close>

text \<open>
  The levels of one grouping column: for a categorical column its categories (only the observed
  ones under \<open>observed=True\<close>), in category order; otherwise the sorted distinct values present.
  Missing keys are dropped (\<open>dropna=True\<close>).
\<close>

definition group_levels :: "bool \<Rightarrow> series \<Rightarrow> cell list \<Rightarrow> cell list" where
  "group_levels observed s present =
     (case cats s of
        Some cs \<Rightarrow> (if observed then filter (\<lambda>c. c \<in> set present) cs else cs)
      | None \<Rightarrow> sort_cells (remdups present))"

definition key_pairs :: "series \<Rightarrow> series \<Rightarrow> (cell \<times> cell) list" where
  "key_pairs a b = filter (\<lambda>(u, v). u \<noteq> NaN \<and> v \<noteq> NaN) (zip (vals a) (vals b))"

text \<open>
  The group keys of a two-column \<open>groupby\<close>, in result order. When a grouping column is
  categorical and \<open>observed\<close> is False, the result has every combination of the levels;
  otherwise only the combinations that occur.
\<close>

definition group_keys :: "bool \<Rightarrow> series \<Rightarrow> series \<Rightarrow> (cell \<times> cell) list" where
  "group_keys observed a b =
     (let ps = key_pairs a b;
          full = (\<not> observed \<and> (cats a \<noteq> None \<or> cats b \<noteq> None))
      in filter (\<lambda>k. full \<or> k \<in> set ps)
           (List.product (group_levels observed a (map fst ps))
                         (group_levels observed b (map snd ps))))"

text \<open>
  \<open>df.groupby([a, b]).size().reset_index(name=cnt)\<close>: one row per group key with the number of
  rows of that key. \<open>reset_index\<close> raises ValueError when a column name would occur twice.
\<close>

definition groupby_size ::
  "runtime \<Rightarrow> frame \<Rightarrow> string \<Rightarrow> string \<Rightarrow> string \<Rightarrow> py_error + frame" where
  "groupby_size rt df a b cnt =
     rbind (get_column df a) (\<lambda>sa.
     rbind (get_column df b) (\<lambda>sb.
       if a = b \<or> a = cnt \<or> b = cnt then Inl ValueError
       else
         (let ks = group_keys (groupby_observed rt) sa sb
          in Inr [(a, Series (cats sa) (map fst ks)),
                  (b, Series (cats sb) (map snd ks)),
                  (cnt, Series None
                     (map (\<lambda>k. Num (of_nat (count_list (key_pairs sa sb) k))) ks))])))"

subsection \<open>read_csv\<close>

text \<open>
  The file is given as its text table: each header name with the fields below it. Fetching the
  URL and splitting the text into fields are outside the model. A field that is one of the NA
  markers becomes a missing value; a column all of whose remaining fields read as numbers
  becomes numeric, any other column keeps its fields as strings.
\<close>

type_synonym csv_file = "(string \<times> string list) list"

definition read_csv_column :: "runtime \<Rightarrow> string list \<Rightarrow> string list \<Rightarrow> series" where
  "read_csv_column rt nas fs =
     (if list_all (\<lambda>f. f \<in> set nas \<or> csv_number rt f \<noteq> None) fs
      then Series None
             (map (\<lambda>f. if f \<in> set nas then NaN
                        else (case csv_number rt f of Some r \<Rightarrow> Num r | None \<Rightarrow> Str f)) fs)
      else Series None (map (\<lambda>f. if f \<in> set nas then NaN else Str f) fs))"

text \<open>\<open>pd.read_csv(..., na_values=extra)\<close> with \<open>keep_default_na=True\<close>.\<close>

definition read_csv :: "runtime \<Rightarrow> string list \<Rightarrow> csv_file \<Rightarrow> frame" where
  "read_csv rt extra file =
     map (\<lambda>(n, fs). (n, read_csv_column rt (extra @ default_na rt) fs)) file"

subsection \<open>Series.replace and Series.astype\<close>

definition replace_values :: "(string \<times> string) list \<Rightarrow> series \<Rightarrow> series" where
  "replace_values m s =
     Series (cats s)
       (map (\<lambda>v. case v of
                    Str t \<Rightarrow> (case map_of m t of Some t' \<Rightarrow> Str t' | None \<Rightarrow> Str t)
                  | _ \<Rightarrow> v) (vals s))"

definition float_cell :: "runtime \<Rightarrow> cell \<Rightarrow> py_error + cell" where
  "float_cell rt v =
     (case v of
        NaN \<Rightarrow> Inr NaN
      | Num r \<Rightarrow> Inr (Num r)
      | Str t \<Rightarrow> (case py_float rt t of Some r \<Rightarrow> Inr (Num r) | None \<Rightarrow> Inl ValueError)
      | Ivl a b \<Rightarrow> Inl TypeError)"

definition astype_float :: "runtime \<Rightarrow> series \<Rightarrow> py_error + series" where
  "astype_float rt s = rbind (rmap (float_cell rt) (vals s)) (\<lambda>vs. Inr (Series None vs))"

subsection \<open>groupby(...).agg(mean), round, reset_index\<close>

definition is_numeric :: "series \<Rightarrow> bool" where
  "is_numeric s = list_all (\<lambda>v. case v of NaN \<Rightarrow> True | Num r \<Rightarrow> True | _ \<Rightarrow> False) (vals s)"

definition numbers :: "cell list \<Rightarrow> rat list" where
  "numbers vs = concat (map (\<lambda>v. case v of Num r \<Rightarrow> [r] | _ \<Rightarrow> []) vs)"

text \<open>The mean skips missing values (\<open>skipna\<close>); it is missing when no value is present.\<close>

definition mean_of :: "cell list \<Rightarrow> cell" where
  "mean_of vs =
     (let ns = numbers vs
      in if ns = [] then NaN else Num (sum_list ns / of_nat (length ns)))"

definition group_rows :: "series \<Rightarrow> series \<Rightarrow> cell \<Rightarrow> cell list" where
  "group_rows k s l = map snd (filter (\<lambda>(u, v). u = l) (zip (vals k) (vals s)))"

text \<open>
  \<open>df.groupby(key).agg({c1: 'mean', ...})\<close>: the result is indexed by the levels of the key and
  has one column of group means per aggregated column. A column that is not numeric raises
  TypeError. The result is the pair of the index column and the frame.
\<close>

definition groupby_mean ::
  "runtime \<Rightarrow> frame \<Rightarrow> string \<Rightarrow> string list \<Rightarrow> py_error + ((string \<times> series) \<times> frame)" where
  "groupby_mean rt df key cs =
     rbind (get_column df key) (\<lambda>k.
       (let ls = group_levels (groupby_observed rt) k (filter (\<lambda>v. v \<noteq> NaN) (vals k))
        in rbind (rmap (\<lambda>c. rbind (get_column df c) (\<lambda>s.
                           if is_numeric s
                           then Inr (c, Series None (map (\<lambda>l. mean_of (group_rows k s l)) ls))
                           else Inl TypeError)) cs) (\<lambda>agg.
             Inr ((key, Series (cats k) ls), agg))))"

text \<open>Rounding to the nearest multiple of 1/100, ties to the even one (numpy's \<open>around\<close>).\<close>

definition round_half_even :: "rat \<Rightarrow> int" where
  "round_half_even y =
     (let f = \<lfloor>y\<rfloor>; d = y - of_int f
      in if d < 1 / 2 then f else if 1 / 2 < d then f + 1 else if even f then f else f + 1)"

definition round2 :: "rat \<Rightarrow> rat" where
  "round2 r = of_int (round_half_even (r * 100)) / 100"

definition round_frame :: "frame \<Rightarrow> frame" where
  "round_frame df =
     map (\<lambda>(n, s). (n, Series (cats s)
                        (map (\<lambda>v. case v of Num r \<Rightarrow> Num (round2 r) | _ \<Rightarrow> v) (vals s)))) df"

definition reset_index :: "(string \<times> series) \<times> frame \<Rightarrow> py_error + frame" where
  "reset_index r =
     (case r of (idx, df) \<Rightarrow>
        if fst idx \<in> set (columns df) then Inl ValueError else Inr (idx # df))"

subsection \<open>pd.cut with a number of bins\<close>

definition linspace :: "rat \<Rightarrow> rat \<Rightarrow> nat \<Rightarrow> rat list" where
  "linspace lo hi n = map (\<lambda>i. lo + of_nat i * ((hi - lo) / of_nat n)) [0..<n] @ [hi]"

definition list_min :: "rat list \<Rightarrow> rat" where
  "list_min xs = fold min (tl xs) (hd xs)"

definition list_max :: "rat list \<Rightarrow> rat" where
  "list_max xs = fold max (tl xs) (hd xs)"

text \<open>
  \<open>_nbins_to_bins\<close>: \<open>n\<close> equal-width bins over the range of the values present. The range is
  widened by 0.1 percent on the left (all values equal: on both sides) so that the least value
  falls into the first bin. No value present gives ValueError.
\<close>

definition nbins_to_bins :: "rat list \<Rightarrow> nat \<Rightarrow> py_error + rat list" where
  "nbins_to_bins xs n =
     (if n < 1 then Inl ValueError
      else if xs = [] then Inl ValueError
      else
        (let mn = list_min xs; mx = list_max xs
         in if mn = mx
            then Inr (linspace (mn - (if mn \<noteq> 0 then (1 / 1000) * \<bar>mn\<bar> else 1 / 1000))
                               (mx + (if mx \<noteq> 0 then (1 / 1000) * \<bar>mx\<bar> else 1 / 1000)) n)
            else (case linspace mn mx n of
                    [] \<Rightarrow> Inr []
                  | b # bs \<Rightarrow> Inr ((b - (mx - mn) * (1 / 1000)) # bs))))"

text \<open>
  The categories of \<open>pd.cut(s, bins=n)\<close> are the right-closed intervals between consecutive
  edges. (pandas stores the end points rounded to three significant digits; the intervals here
  carry the edges themselves.)
\<close>

definition intervals :: "rat list \<Rightarrow> cell list" where
  "intervals bins = map (\<lambda>(a, b). Ivl a b) (zip bins (tl bins))"

definition cut_nbins :: "series \<Rightarrow> nat \<Rightarrow> py_error + series" where
  "cut_nbins s n =
     (if is_numeric s
      then rbind (nbins_to_bins (numbers (vals s)) n) (\<lambda>bins.
           rbind (rmap (cut_cell bins (intervals bins)) (vals s)) (\<lambda>vs.
             Inr (Series (Some (intervals bins)) vs)))
      else Inl TypeError)"

section \<open>Figures\<close>

text \<open>
  A plotly figure is represented by what the call that builds it is given: the kind of chart,
  the data frame it draws and the column names and options passed. Plotly copies the data into
  the figure when it is built, so a figure holds a frame value, not a reference.
\<close>

datatype fig_kind = TableFig | ScatterFig | BoxFig | BarFig

datatype lval = LNum int | LStr string | LBool bool

record figure =
  fig_kind :: fig_kind
  fig_data :: frame
  fig_x :: "string option"
  fig_y :: "string option"
  fig_color :: "string option"
  fig_facet_col :: "string option"
  fig_facet_col_wrap :: "nat option"
  fig_hover_data :: "string list"
  fig_barmode :: "string option"
  fig_color_discrete_map :: "(string \<times> string) list"
  fig_labels :: "(string \<times> string) list"
  fig_annotations :: "(string \<times> cell) list"
  fig_layout :: "(string \<times> lval) list"

definition new_figure :: "fig_kind \<Rightarrow> frame \<Rightarrow> figure" where
  "new_figure k df =
     \<lparr>fig_kind = k, fig_data = df, fig_x = None, fig_y = None, fig_color = None,
      fig_facet_col = None, fig_facet_col_wrap = None, fig_hover_data = [],
      fig_barmode = None, fig_color_discrete_map = [], fig_labels = [],
      fig_annotations = [], fig_layout = []\<rparr>"

text \<open>A Python dict literal: later entries overwrite earlier ones of the same key.\<close>

definition dict_of :: "('k \<times> 'v) list \<Rightarrow> ('k \<times> 'v) list" where
  "dict_of kvs = foldl (\<lambda>d (k, v). AList.update k v d) [] kvs"

text \<open>Plotly express raises ValueError when an argument names no column of the frame.\<close>

definition px_columns :: "frame \<Rightarrow> string list \<Rightarrow> py_error + unit" where
  "px_columns df cs =
     (if list_all (\<lambda>c. c \<in> set (columns df)) cs then Inr () else Inl ValueError)"

text \<open>\<open>ff.create_table(df)\<close>\<close>

definition create_table :: "frame \<Rightarrow> figure" where
  "create_table df = new_figure TableFig df"

text \<open>\<open>px.scatter(df, x=, y=, color=, hover_data=, labels=)\<close>\<close>

definition px_scatter ::
  "frame \<Rightarrow> string \<Rightarrow> string \<Rightarrow> string \<Rightarrow> string list \<Rightarrow> (string \<times> string) list
     \<Rightarrow> py_error + figure" where
  "px_scatter df x y color hover labels =
     rbind (px_columns df ([x, y, color] @ hover)) (\<lambda>u.
       Inr ((new_figure ScatterFig df)
              \<lparr>fig_x := Some x, fig_y := Some y, fig_color := Some color,
               fig_hover_data := hover, fig_labels := labels\<rparr>))"

text \<open>
  \<open>px.box(df, x=, y=, color=, facet_col=, facet_col_wrap=, color_discrete_map=, labels=)\<close>.
  With \<open>facet_col\<close> the figure has one panel per value of that column present in the frame,
  and one annotation per panel whose text is the column name, \<open>=\<close>, and the value; an
  annotation is kept as the pair of the text before the value and the value.
\<close>

definition facet_annotations :: "frame \<Rightarrow> string \<Rightarrow> (string \<times> cell) list" where
  "facet_annotations df c =
     (case map_of df c of
        None \<Rightarrow> []
      | Some s \<Rightarrow> map (\<lambda>v. (c @ ''='', v)) (remdups (filter (\<lambda>v. v \<noteq> NaN) (vals s))))"

definition px_box ::
  "frame \<Rightarrow> string \<Rightarrow> string \<Rightarrow> string \<Rightarrow> string option \<Rightarrow> nat option
     \<Rightarrow> (string \<times> string) list \<Rightarrow> (string \<times> string) list \<Rightarrow> py_error + figure" where
  "px_box df x y color facet wrap cmap labels =
     rbind (px_columns df ([x, y, color] @ (case facet of None \<Rightarrow> [] | Some f \<Rightarrow> [f]))) (\<lambda>u.
       Inr ((new_figure BoxFig df)
              \<lparr>fig_x := Some x, fig_y := Some y, fig_color := Some color,
               fig_facet_col := facet, fig_facet_col_wrap := wrap,
               fig_color_discrete_map := cmap, fig_labels := labels,
               fig_annotations :=
                 (case facet of None \<Rightarrow> [] | Some f \<Rightarrow> facet_annotations df f)\<rparr>))"

text \<open>\<open>px.bar(df, x=, y=, color=, barmode=, labels=)\<close>\<close>

definition px_bar ::
  "frame \<Rightarrow> string \<Rightarrow> string \<Rightarrow> string \<Rightarrow> string \<Rightarrow> (string \<times> string) list
     \<Rightarrow> py_error + figure" where
  "px_bar df x y color barmode labels =
     rbind (px_columns df [x, y, color]) (\<lambda>u.
       Inr ((new_figure BarFig df)
              \<lparr>fig_x := Some x, fig_y := Some y, fig_color := Some color,
               fig_barmode := Some barmode, fig_labels := labels\<rparr>))"

text \<open>\<open>fig.update_layout(k1=v1, ...)\<close>\<close>

definition update_layout :: "(string \<times> lval) list \<Rightarrow> figure \<Rightarrow> figure" where
  "update_layout kvs fig =
     fig\<lparr>fig_layout := foldl (\<lambda>d (k, v). AList.update k v d) (fig_layout fig) kvs\<rparr>"

text \<open>
  \<open>fig.for_each_annotation(lambda a: a.update(text=a.text.split("=")[-1]))\<close>: each annotation
  keeps the text after its last \<open>=\<close>. The text of a value (an interval here) has no \<open>=\<close>, so
  what is dropped is the text before the value.
\<close>

definition strip_annotation_names :: "figure \<Rightarrow> figure" where
  "strip_annotation_names fig =
     fig\<lparr>fig_annotations := map (\<lambda>(pre, v). ([], v)) (fig_annotations fig)\<rparr>"

section \<open>The Dash application object\<close>

datatype component =
    Div "(string \<times> string) list" "component list"
  | H1 string "(string \<times> string) list"
  | H2 string
  | H3 string "(string \<times> string) list"
  | H4 string
  | Hr
  | Label string
  | Details "component list"
  | Summary string
  | Markdown string
  | Dropdown string "(string \<times> string) list" string
  | Graph "string option" "figure option"

text \<open>
  A registered callback: the output (component id, property), the inputs, and the name of the
  function the decorator was applied to.
\<close>

record callback =
  cb_output :: "string \<times> string"
  cb_inputs :: "(string \<times> string) list"
  cb_function :: string

record dash_app =
  app_stylesheets :: "string list"
  app_layout :: "component option"
  app_callbacks :: "callback list"

section \<open>The interpreter state\<close>

text \<open>
  The module's global names are bound to values. A DataFrame and a Dash application are
  objects: the value is an address into the store of its kind, so two names can share one
  object, and an assignment to a column changes the object for every name that refers to it.
  An address held by a value always lies inside its store (\<open>new_frame\<close> and \<open>new_app\<close> are
  the only sources of addresses).
\<close>

datatype pyval =
    VFrame nat
  | VFig figure
  | VStrs "string list"
  | VStr string
  | VApp nat
  | VServer nat
  | VFunc string

record pystate =
  frames :: "frame list"
  apps :: "dash_app list"
  globals :: "string \<Rightarrow> pyval option"

type_synonym 'a py = "pystate \<Rightarrow> (py_error + 'a) \<times> pystate"

definition ret :: "'a \<Rightarrow> 'a py" where
  "ret x = (\<lambda>s. (Inr x, s))"

definition raise :: "py_error \<Rightarrow> 'a py" where
  "raise e = (\<lambda>s. (Inl e, s))"

text \<open>Sequencing: an exception ends the run and keeps the state reached so far.\<close>

definition bnd :: "'a py \<Rightarrow> ('a \<Rightarrow> 'b py) \<Rightarrow> 'b py" where
  "bnd m f = (\<lambda>s. case m s of (Inl e, s') \<Rightarrow> (Inl e, s') | (Inr x, s') \<Rightarrow> f x s')"

definition lift :: "py_error + 'a \<Rightarrow> 'a py" where
  "lift r = (\<lambda>s. (r, s))"

definition get_global :: "string \<Rightarrow> pyval py" where
  "get_global n =
     (\<lambda>s. case globals s n of None \<Rightarrow> (Inl (NameError n), s) | Some v \<Rightarrow> (Inr v, s))"

definition set_global :: "string \<Rightarrow> pyval \<Rightarrow> unit py" where
  "set_global n v = (\<lambda>s. (Inr (), s\<lparr>globals := (globals s)(n \<mapsto> v)\<rparr>))"

definition new_frame :: "frame \<Rightarrow> nat py" where
  "new_frame df = (\<lambda>s. (Inr (length (frames s)), s\<lparr>frames := frames s @ [df]\<rparr>))"

definition read_frame :: "nat \<Rightarrow> frame py" where
  "read_frame a = (\<lambda>s. (Inr (frames s ! a), s))"

definition write_frame :: "nat \<Rightarrow> frame \<Rightarrow> unit py" where
  "write_frame a df = (\<lambda>s. (Inr (), s\<lparr>frames := (frames s)[a := df]\<rparr>))"

text \<open>
  Reading a global that the module uses as a DataFrame. The module binds such a name to
  DataFrames only; where the name holds a value of another kind the first attribute access on
  it fails, which is given as AttributeError whatever the kind.
\<close>

definition frame_var :: "string \<Rightarrow> nat py" where
  "frame_var n =
     bnd (get_global n) (\<lambda>v. case v of VFrame a \<Rightarrow> ret a | _ \<Rightarrow> raise (AttributeError n))"

definition fig_var :: "string \<Rightarrow> figure py" where
  "fig_var n =
     bnd (get_global n) (\<lambda>v. case v of VFig f \<Rightarrow> ret f | _ \<Rightarrow> raise (AttributeError n))"

definition strs_var :: "string \<Rightarrow> string list py" where
  "strs_var n =
     bnd (get_global n) (\<lambda>v. case v of VStrs l \<Rightarrow> ret l | _ \<Rightarrow> raise (AttributeError n))"

definition str_var :: "string \<Rightarrow> string py" where
  "str_var n =
     bnd (get_global n) (\<lambda>v. case v of VStr l \<Rightarrow> ret l | _ \<Rightarrow> raise (AttributeError n))"

definition app_var :: "string \<Rightarrow> nat py" where
  "app_var n =
     bnd (get_global n) (\<lambda>v. case v of VApp a \<Rightarrow> ret a | _ \<Rightarrow> raise (AttributeError n))"

text \<open>\<open>df.copy()\<close>: a new object with the same contents.\<close>

definition copy_frame :: "nat \<Rightarrow> nat py" where
  "copy_frame a = bnd (read_frame a) new_frame"

text \<open>\<open>df[name] = s\<close>: the object at the address is changed in place.\<close>

definition assign_column :: "nat \<Rightarrow> string \<Rightarrow> series \<Rightarrow> unit py" where
  "assign_column a name s = bnd (read_frame a) (\<lambda>df. write_frame a (set_column df name s))"

section \<open>The callback update_graph\<close>

text \<open>
  Lines 116 to 135. \<open>df\<close> is an object of the store, since a column is assigned to it;
  \<open>df_plot\<close> and \<open>grouped_df\<close> are local, never assigned to, and are passed as values.
\<close>

definition update_graph :: "runtime \<Rightarrow> string \<Rightarrow> string \<Rightarrow> figure py" where
  "update_graph rt xaxis_col color_col =
     bnd (frame_var ''gss_clean'') (\<lambda>g.
     bnd (copy_frame g) (\<lambda>df.
     bnd (if color_col = ''education''
          then
            bnd (read_frame df) (\<lambda>d.
            bnd (lift (get_column d ''education'')) (\<lambda>e.
            bnd (lift (cut_bins e [0, 8, 12, 16, 25]
                         [''<9 years'', ''9-12 years'', ''13-16 years'', ''>16 years''])) (\<lambda>b.
            bnd (assign_column df ''education_binned'' b) (\<lambda>u.
            ret ''education_binned''))))
          else ret color_col) (\<lambda>color_col_plot.
     bnd (read_frame df) (\<lambda>d.
     bnd (lift (dropna_subset d [xaxis_col, color_col_plot])) (\<lambda>df_plot.
     bnd (lift (groupby_size rt df_plot xaxis_col color_col_plot ''count'')) (\<lambda>grouped_df.
     bnd (lift (px_bar grouped_df xaxis_col ''count'' color_col_plot ''group''
                  (dict_of
                     [(xaxis_col, title (str_replace ''_'' '' '' xaxis_col)),
                      (''count'', ''Number of Respondents''),
                      (color_col_plot, title (str_replace ''_binned'' '''' color_col))]))) (\<lambda>fig.
     ret (update_layout
            [(''transition_duration'', LNum 500), (''plot_bgcolor'', LStr ''#222222''),
             (''paper_bgcolor'', LStr ''#111111''), (''font_color'', LStr ''#FFFFFF'')]
            fig))))))))"

text \<open>
  The figure that \<open>update_graph\<close> returns is a function of the contents of \<open>gss_clean\<close> and the
  two arguments. \<open>binned_frame\<close> is the local frame \<open>df\<close> after the branch on \<open>color_col\<close>
  together with \<open>color_col_plot\<close>; \<open>update_graph_fig\<close> is the rest of the body. Lemma
  \<open>update_graph_run\<close> below derives both from the definition of \<open>update_graph\<close>.
\<close>

definition binned_frame :: "frame \<Rightarrow> string \<Rightarrow> py_error + (frame \<times> string)" where
  "binned_frame g color_col =
     (if color_col = ''education''
      then rbind (get_column g ''education'') (\<lambda>e.
           rbind (cut_bins e [0, 8, 12, 16, 25]
                    [''<9 years'', ''9-12 years'', ''13-16 years'', ''>16 years'']) (\<lambda>b.
             Inr (set_column g ''education_binned'' b, ''education_binned'')))
      else Inr (g, color_col))"

definition update_graph_fig :: "runtime \<Rightarrow> frame \<Rightarrow> string \<Rightarrow> string \<Rightarrow> py_error + figure" where
  "update_graph_fig rt g xaxis_col color_col =
     rbind (binned_frame g color_col) (\<lambda>(d, color_col_plot).
     rbind (dropna_subset d [xaxis_col, color_col_plot]) (\<lambda>df_plot.
     rbind (groupby_size rt df_plot xaxis_col color_col_plot ''count'') (\<lambda>grouped_df.
     rbind (px_bar grouped_df xaxis_col ''count'' color_col_plot ''group''
              (dict_of
                 [(xaxis_col, title (str_replace ''_'' '' '' xaxis_col)),
                  (''count'', ''Number of Respondents''),
                  (color_col_plot, title (str_replace ''_binned'' '''' color_col))])) (\<lambda>fig.
       Inr (update_layout
              [(''transition_duration'', LNum 500), (''plot_bgcolor'', LStr ''#222222''),
               (''paper_bgcolor'', LStr ''#111111''), (''font_color'', LStr ''#FFFFFF'')]
              fig)))))"

text \<open>A history of invocations of the callback: the state after calling it for each pair.\<close>

definition invocations :: "runtime \<Rightarrow> (string \<times> string) list \<Rightarrow> pystate \<Rightarrow> pystate" where
  "invocations rt hist s = fold (\<lambda>(x, c) s'. snd (update_graph rt x c s')) hist s"

section \<open>The module's statements\<close>

text \<open>
  Each statement of the module is a computation on the interpreter state, named after the
  global it binds. A temporary (the unnamed result of a subexpression) is passed as a value;
  a frame bound to a global name is an object of the store.
\<close>

fun run_all :: "unit py list \<Rightarrow> unit py" where
  "run_all [] = ret ()"
| "run_all (m # ms) = bnd m (\<lambda>u. run_all ms)"

text \<open>
  \<open>obj.name\<close> on a DataFrame reads the column of that name (AttributeError when there is
  none); \<open>obj.name = s\<close> replaces that column when it exists, and otherwise sets a plain
  attribute of the object, which leaves the table as it is.
\<close>

definition get_attr :: "nat \<Rightarrow> string \<Rightarrow> series py" where
  "get_attr a name =
     bnd (read_frame a) (\<lambda>df.
       case map_of df name of None \<Rightarrow> raise (AttributeError name) | Some s \<Rightarrow> ret s)"

definition set_attr :: "nat \<Rightarrow> string \<Rightarrow> series \<Rightarrow> unit py" where
  "set_attr a name s =
     bnd (read_frame a) (\<lambda>df.
       if name \<in> set (columns df) then write_frame a (set_column df name s) else ret ())"

subsection \<open>Load and clean data (lines 11 to 26)\<close>

definition na_values :: "string list" where
  "na_values =
     [''IAP'', ''IAP,DK,NA,uncodeable'', ''NOT SURE'', ''DK'', ''IAP, DK, NA, uncodeable'',
      ''.a'', ''CAN'T CHOOSE'']"

definition gss_stmt :: "runtime \<Rightarrow> csv_file \<Rightarrow> unit py" where
  "gss_stmt rt file =
     bnd (new_frame (read_csv rt na_values file)) (\<lambda>a. set_global ''gss'' (VFrame a))"

definition mycols_stmt :: "unit py" where
  "mycols_stmt =
     set_global ''mycols''
       (VStrs [''id'', ''wtss'', ''sex'', ''educ'', ''region'', ''age'', ''coninc'',
               ''prestg10'', ''mapres10'', ''papres10'', ''sei10'', ''satjob'',
               ''fechld'', ''fefam'', ''fepol'', ''fepresch'', ''meovrwrk''])"

definition gss_clean_select_stmt :: "unit py" where
  "gss_clean_select_stmt =
     bnd (frame_var ''gss'') (\<lambda>g.
     bnd (strs_var ''mycols'') (\<lambda>cs.
     bnd (read_frame g) (\<lambda>df.
     bnd (lift (select_columns df cs)) (\<lambda>r.
     bnd (new_frame r) (\<lambda>a.
     set_global ''gss_clean'' (VFrame a))))))"

definition rename_map :: "(string \<times> string) list" where
  "rename_map =
     dict_of
       [(''wtss'', ''weight''), (''educ'', ''education''), (''coninc'', ''income''),
        (''prestg10'', ''job_prestige''), (''mapres10'', ''mother_job_prestige''),
        (''papres10'', ''father_job_prestige''), (''sei10'', ''socioeconomic_index''),
        (''fechld'', ''relationship''), (''fefam'', ''male_breadwinner''),
        (''fehire'', ''hire_women''), (''fejobaff'', ''preference_hire_women''),
        (''fepol'', ''men_bettersuited''), (''fepresch'', ''child_suffer''),
        (''meovrwrk'', ''men_overwork'')]"

definition gss_clean_rename_stmt :: "unit py" where
  "gss_clean_rename_stmt =
     bnd (frame_var ''gss_clean'') (\<lambda>g.
     bnd (read_frame g) (\<lambda>df.
     bnd (new_frame (rename_columns rename_map df)) (\<lambda>a.
     set_global ''gss_clean'' (VFrame a))))"

definition age_replace_stmt :: "unit py" where
  "age_replace_stmt =
     bnd (frame_var ''gss_clean'') (\<lambda>g.
     bnd (get_attr g ''age'') (\<lambda>age.
     bnd (frame_var ''gss_clean'') (\<lambda>g'.
     set_attr g' ''age'' (replace_values (dict_of [(''89 or older'', ''89'')]) age))))"

definition age_astype_stmt :: "runtime \<Rightarrow> unit py" where
  "age_astype_stmt rt =
     bnd (frame_var ''gss_clean'') (\<lambda>g.
     bnd (get_attr g ''age'') (\<lambda>age.
     bnd (lift (astype_float rt age)) (\<lambda>age'.
     bnd (frame_var ''gss_clean'') (\<lambda>g'.
     set_attr g' ''age'' age'))))"

definition load_and_clean :: "runtime \<Rightarrow> csv_file \<Rightarrow> unit py" where
  "load_and_clean rt file =
     run_all [gss_stmt rt file, mycols_stmt, gss_clean_select_stmt, gss_clean_rename_stmt,
              age_replace_stmt, age_astype_stmt rt]"

subsection \<open>Markdown text (lines 31 to 39)\<close>

definition markdown_text :: string where
  "markdown_text =
     ''\<newline>### The Gender Wage Gap\<newline>\<newline>According to analysis from the [Pew Research Center](https://www.pewresearch.org/short-reads/2025/03/04/gender-pay-gap-in-us-has-narrowed-slightly-over-2-decades/), the gap has narrowed only slightly over the past two decades, with women earning about 82 cents for every dollar earned by men in 2022. Research from UVA's [Darden School of Business](https://news.darden.virginia.edu/2024/04/04/why-the-gender-pay-gap-persists-in-american-businesses/) suggests that factors such as differences in industry, work experience, and education levels contribute to this disparity, though a significant portion remains unexplained and may be attributed to gender discrimination.\<newline>\<newline>### About the General Social Survey (GSS)\<newline>\<newline>The data for this dashboard comes from the [General Social Survey (GSS)](https://gss.norc.org/us/en/gss/about-the-gss.html), one of the most influential social science projects in the United States. Since 1972, the GSS has collected data on American society to monitor and explain trends in attitudes, behaviors, and attributes. It is conducted by NORC at the University of Chicago and provides a wealth of information on a wide range of topics, making it an invaluable resource for understanding societal change.\<newline>''"

definition markdown_text_stmt :: "unit py" where
  "markdown_text_stmt = set_global ''markdown_text'' (VStr markdown_text)"

subsection \<open>Problem 2: table figure (lines 42 to 50)\<close>

definition summary_df_stmt :: "runtime \<Rightarrow> unit py" where
  "summary_df_stmt rt =
     bnd (frame_var ''gss_clean'') (\<lambda>g.
     bnd (read_frame g) (\<lambda>df.
     bnd (lift (groupby_mean rt df ''sex''
                  (map fst (dict_of
                     [(''income'', ''mean''), (''job_prestige'', ''mean''),
                      (''socioeconomic_index'', ''mean''), (''education'', ''mean'')])))) (\<lambda>r.
     bnd (lift (reset_index (fst r, round_frame (snd r)))) (\<lambda>t.
     bnd (new_frame t) (\<lambda>a.
     set_global ''summary_df'' (VFrame a))))))"

definition summary_df_rename_stmt :: "unit py" where
  "summary_df_rename_stmt =
     bnd (frame_var ''summary_df'') (\<lambda>g.
     bnd (read_frame g) (\<lambda>df.
     bnd (new_frame
            (rename_columns
               (dict_of
                  [(''sex'', ''Sex''), (''income'', ''Mean Income''),
                   (''job_prestige'', ''Mean Job Prestige''),
                   (''socioeconomic_index'', ''Mean Socioeconomic Index''),
                   (''education'', ''Mean Education (Years)'')]) df)) (\<lambda>a.
     set_global ''summary_df'' (VFrame a))))"

definition table_fig_stmt :: "unit py" where
  "table_fig_stmt =
     bnd (frame_var ''summary_df'') (\<lambda>g.
     bnd (read_frame g) (\<lambda>df.
     set_global ''table_fig'' (VFig (create_table df))))"

subsection \<open>Problem 4: scatter plot figure (lines 53 to 56)\<close>

definition scatter_data_stmt :: "unit py" where
  "scatter_data_stmt =
     bnd (frame_var ''gss_clean'') (\<lambda>g.
     bnd (read_frame g) (\<lambda>df.
     bnd (lift (select_columns df
                  [''job_prestige'', ''income'', ''sex'', ''education'',
                   ''socioeconomic_index''])) (\<lambda>r.
     bnd (new_frame (dropna r)) (\<lambda>a.
     set_global ''scatter_data'' (VFrame a)))))"

definition scatter_fig_stmt :: "unit py" where
  "scatter_fig_stmt =
     bnd (frame_var ''scatter_data'') (\<lambda>g.
     bnd (read_frame g) (\<lambda>df.
     bnd (lift (px_scatter df ''job_prestige'' ''income'' ''sex''
                  [''education'', ''socioeconomic_index'']
                  (dict_of [(''job_prestige'', ''Job Prestige Score''),
                            (''income'', ''Annual Income''), (''sex'', ''Sex'')]))) (\<lambda>fig.
     set_global ''scatter_fig'' (VFig fig))))"

subsection \<open>Problem 5: box plot figures (lines 59 to 63)\<close>

definition box_data_stmt :: "unit py" where
  "box_data_stmt =
     bnd (frame_var ''gss_clean'') (\<lambda>g.
     bnd (read_frame g) (\<lambda>df.
     bnd (lift (select_columns df [''income'', ''job_prestige'', ''sex''])) (\<lambda>r.
     bnd (new_frame (dropna r)) (\<lambda>a.
     set_global ''box_data'' (VFrame a)))))"

definition income_boxplot_fig_stmt :: "unit py" where
  "income_boxplot_fig_stmt =
     bnd (frame_var ''box_data'') (\<lambda>g.
     bnd (read_frame g) (\<lambda>df.
     bnd (lift (px_box df ''sex'' ''income'' ''sex'' None None []
                  (dict_of [(''income'', ''Annual Income''), (''sex'', '''')]))) (\<lambda>fig.
     set_global ''income_boxplot_fig'' (VFig fig))))"

definition income_boxplot_layout_stmt :: "unit py" where
  "income_boxplot_layout_stmt =
     bnd (fig_var ''income_boxplot_fig'') (\<lambda>fig.
     set_global ''income_boxplot_fig''
       (VFig (update_layout [(''showlegend'', LBool False)] fig)))"

definition prestige_boxplot_fig_stmt :: "unit py" where
  "prestige_boxplot_fig_stmt =
     bnd (frame_var ''box_data'') (\<lambda>g.
     bnd (read_frame g) (\<lambda>df.
     bnd (lift (px_box df ''sex'' ''job_prestige'' ''sex'' None None []
                  (dict_of [(''job_prestige'', ''Job Prestige Score''), (''sex'', '''')]))) (\<lambda>fig.
     set_global ''prestige_boxplot_fig'' (VFig fig))))"

definition prestige_boxplot_layout_stmt :: "unit py" where
  "prestige_boxplot_layout_stmt =
     bnd (fig_var ''prestige_boxplot_fig'') (\<lambda>fig.
     set_global ''prestige_boxplot_fig''
       (VFig (update_layout [(''showlegend'', LBool False)] fig)))"

subsection \<open>Problem 6: faceted box plot figure (lines 66 to 72)\<close>

definition facet_df_stmt :: "unit py" where
  "facet_df_stmt =
     bnd (frame_var ''gss_clean'') (\<lambda>g.
     bnd (read_frame g) (\<lambda>df.
     bnd (lift (select_columns df [''income'', ''sex'', ''job_prestige''])) (\<lambda>r.
     bnd (new_frame r) (\<lambda>a.
     set_global ''facet_df'' (VFrame a)))))"

definition facet_df_cut_stmt :: "unit py" where
  "facet_df_cut_stmt =
     bnd (frame_var ''facet_df'') (\<lambda>g.
     bnd (read_frame g) (\<lambda>df.
     bnd (lift (get_column df ''job_prestige'')) (\<lambda>p.
     bnd (lift (cut_nbins p 6)) (\<lambda>c.
     bnd (frame_var ''facet_df'') (\<lambda>g'.
     assign_column g' ''prestige_category'' c)))))"

definition facet_df_dropna_stmt :: "unit py" where
  "facet_df_dropna_stmt =
     bnd (frame_var ''facet_df'') (\<lambda>g.
     bnd (read_frame g) (\<lambda>df.
     bnd (new_frame (dropna df)) (\<lambda>a.
     set_global ''facet_df'' (VFrame a))))"

definition facet_fig_stmt :: "unit py" where
  "facet_fig_stmt =
     bnd (frame_var ''facet_df'') (\<lambda>g.
     bnd (read_frame g) (\<lambda>df.
     bnd (lift (px_box df ''sex'' ''income'' ''sex'' (Some ''prestige_category'') (Some 2)
                  (dict_of [(''male'', ''blue''), (''female'', ''red'')])
                  (dict_of [(''income'', ''Annual Income''), (''sex'', '''')]))) (\<lambda>fig.
     set_global ''facet_fig'' (VFig fig))))"

definition facet_fig_annotation_stmt :: "unit py" where
  "facet_fig_annotation_stmt =
     bnd (fig_var ''facet_fig'') (\<lambda>fig.
     set_global ''facet_fig'' (VFig (strip_annotation_names fig)))"

definition static_figures :: "runtime \<Rightarrow> unit py" where
  "static_figures rt =
     run_all [summary_df_stmt rt, summary_df_rename_stmt, table_fig_stmt,
              scatter_data_stmt, scatter_fig_stmt,
              box_data_stmt, income_boxplot_fig_stmt, income_boxplot_layout_stmt,
              prestige_boxplot_fig_stmt, prestige_boxplot_layout_stmt,
              facet_df_stmt, facet_df_cut_stmt, facet_df_dropna_stmt, facet_fig_stmt,
              facet_fig_annotation_stmt]"

subsection \<open>Dropdown lists and the Dash app (lines 75 to 83)\<close>

definition xaxis_options_stmt :: "unit py" where
  "xaxis_options_stmt =
     set_global ''xaxis_options''
       (VStrs [''satjob'', ''relationship'', ''male_breadwinner'', ''men_bettersuited'',
               ''child_suffer'', ''men_overwork''])"

definition color_options_stmt :: "unit py" where
  "color_options_stmt = set_global ''color_options'' (VStrs [''sex'', ''region'', ''education''])"

definition external_stylesheets_stmt :: "unit py" where
  "external_stylesheets_stmt =
     set_global ''external_stylesheets'' (VStrs [''https://codepen.io/chriddyp/pen/bWLwgP.css''])"

definition new_app :: "string list \<Rightarrow> nat py" where
  "new_app sheets =
     (\<lambda>s. (Inr (length (apps s)),
            s\<lparr>apps := apps s @ [\<lparr>app_stylesheets = sheets, app_layout = None,
                                  app_callbacks = []\<rparr>]\<rparr>))"

definition read_app :: "nat \<Rightarrow> dash_app py" where
  "read_app a = (\<lambda>s. (Inr (apps s ! a), s))"

definition write_app :: "nat \<Rightarrow> dash_app \<Rightarrow> unit py" where
  "write_app a app = (\<lambda>s. (Inr (), s\<lparr>apps := (apps s)[a := app]\<rparr>))"

definition app_stmt :: "unit py" where
  "app_stmt =
     bnd (strs_var ''external_stylesheets'') (\<lambda>sheets.
     bnd (new_app sheets) (\<lambda>a.
     set_global ''app'' (VApp a)))"

definition server_stmt :: "unit py" where
  "server_stmt = bnd (app_var ''app'') (\<lambda>a. set_global ''server'' (VServer a))"

subsection \<open>The dashboard layout (lines 86 to 109)\<close>

definition dropdown_options :: "(string \<Rightarrow> string) \<Rightarrow> string list \<Rightarrow> (string \<times> string) list" where
  "dropdown_options label opts = map (\<lambda>i. (label i, i)) opts"

definition layout ::
  "string \<Rightarrow> string list \<Rightarrow> string list \<Rightarrow> figure \<Rightarrow> figure \<Rightarrow> figure \<Rightarrow> figure \<Rightarrow> figure
     \<Rightarrow> component" where
  "layout md xopts copts table_fig scatter_fig income_fig prestige_fig facet_fig =
     Div [(''backgroundColor'', ''#111111''), (''color'', ''#7FDBFF'')]
       [H1 ''GSS 2018: Gender, Occupation, and Income'' [(''textAlign'', ''center'')],
        Div [(''width'', ''24%''), (''float'', ''left''), (''padding'', ''1%'')]
          [H3 ''Dashboard Context & Controls'' [(''textAlign'', ''center'')],
           Details [Summary ''About This Dashboard'', Markdown md],
           Hr,
           H4 ''Bar Plot Controls'',
           Label ''Select a Survey Question:'',
           Dropdown ''xaxis-dropdown''
             (dropdown_options (\<lambda>i. title (str_replace ''_'' '' '' i)) xopts)
             ''male_breadwinner'',
           Label ''Group By:'',
           Dropdown ''color-dropdown'' (dropdown_options title copts) ''sex''],
        Div [(''width'', ''72%''), (''float'', ''right''), (''padding'', ''1%'')]
          [H2 ''Key Metrics by Gender'', Graph None (Some table_fig),
           H2 ''Attitudes on Social Issues'', Graph (Some ''interactive-bar-graph'') None,
           H2 ''Income vs. Job Prestige'', Graph None (Some scatter_fig),
           Div []
             [Div [(''width'', ''49%''), (''display'', ''inline-block''),
                   (''vertical-align'', ''top'')]
                [H2 ''Income Distribution'', Graph None (Some income_fig)],
              Div [(''width'', ''49%''), (''display'', ''inline-block''),
                   (''vertical-align'', ''top'')]
                [H2 ''Job Prestige Distribution'', Graph None (Some prestige_fig)]],
           H2 ''Income by Job Prestige Level'', Graph None (Some facet_fig)]]"

definition layout_stmt :: "unit py" where
  "layout_stmt =
     bnd (str_var ''markdown_text'') (\<lambda>md.
     bnd (strs_var ''xaxis_options'') (\<lambda>xopts.
     bnd (strs_var ''color_options'') (\<lambda>copts.
     bnd (fig_var ''table_fig'') (\<lambda>table_fig.
     bnd (fig_var ''scatter_fig'') (\<lambda>scatter_fig.
     bnd (fig_var ''income_boxplot_fig'') (\<lambda>income_fig.
     bnd (fig_var ''prestige_boxplot_fig'') (\<lambda>prestige_fig.
     bnd (fig_var ''facet_fig'') (\<lambda>facet_fig.
     bnd (app_var ''app'') (\<lambda>a.
     bnd (read_app a) (\<lambda>app.
     write_app a
       (app\<lparr>app_layout :=
              Some (layout md xopts copts table_fig scatter_fig income_fig prestige_fig
                      facet_fig)\<rparr>)))))))))))"

subsection \<open>Registering the callback (lines 112 to 116)\<close>

definition callback_stmt :: "unit py" where
  "callback_stmt =
     bnd (app_var ''app'') (\<lambda>a.
     bnd (read_app a) (\<lambda>app.
     bnd (write_app a
            (app\<lparr>app_callbacks := app_callbacks app @
                    [\<lparr>cb_output = (''interactive-bar-graph'', ''figure''),
                      cb_inputs = [(''xaxis-dropdown'', ''value''), (''color-dropdown'', ''value'')],
                      cb_function = ''update_graph''\<rparr>]\<rparr>)) (\<lambda>u.
     set_global ''update_graph'' (VFunc ''update_graph''))))"

definition dashboard :: "unit py" where
  "dashboard =
     run_all [xaxis_options_stmt, color_options_stmt, external_stylesheets_stmt, app_stmt,
              server_stmt, layout_stmt, callback_stmt]"

subsection \<open>The production server (line 138)\<close>

definition production_server_stmt :: "unit py" where
  "production_server_stmt = bnd (app_var ''app_final'') (\<lambda>a. set_global ''server'' (VServer a))"

subsection \<open>The whole module\<close>

definition initial_state :: pystate where
  "initial_state = \<lparr>frames = [], apps = [], globals = (\<lambda>n. None)\<rparr>"

text \<open>Lines 1 to 135: everything up to and including the definition of the callback.\<close>

definition module_body :: "runtime \<Rightarrow> csv_file \<Rightarrow> unit py" where
  "module_body rt file =
     run_all [load_and_clean rt file, markdown_text_stmt, static_figures rt, dashboard]"

definition load_module :: "runtime \<Rightarrow> csv_file \<Rightarrow> (py_error + unit) \<times> pystate" where
  "load_module rt file = bnd (module_body rt file) (\<lambda>u. production_server_stmt) initial_state"

section \<open>Dash: running a callback when an input changes\<close>

text \<open>
  The page shown in the browser is a component tree, first the application's layout. When the
  value of a component changes, Dash calls every callback that has this property among its
  inputs, with the current values of all its inputs, and puts the result into the output
  property of the callback.
\<close>

fun set_value :: "string \<Rightarrow> string \<Rightarrow> component \<Rightarrow> component" where
  "set_value i v (Div st cs) = Div st (map (set_value i v) cs)"
| "set_value i v (Details cs) = Details (map (set_value i v) cs)"
| "set_value i v (Dropdown j opts w) = (if i = j then Dropdown j opts v else Dropdown j opts w)"
| "set_value i v c = c"

fun get_values :: "string \<Rightarrow> component \<Rightarrow> string list" where
  "get_values i (Div st cs) = concat (map (get_values i) cs)"
| "get_values i (Details cs) = concat (map (get_values i) cs)"
| "get_values i (Dropdown j opts w) = (if i = j then [w] else [])"
| "get_values i c = []"

fun set_figure :: "string \<Rightarrow> figure \<Rightarrow> component \<Rightarrow> component" where
  "set_figure i f (Div st cs) = Div st (map (set_figure i f) cs)"
| "set_figure i f (Details cs) = Details (map (set_figure i f) cs)"
| "set_figure i f (Graph j g) = (if j = Some i then Graph j (Some f) else Graph j g)"
| "set_figure i f c = c"

definition input_value :: "component \<Rightarrow> string \<times> string \<Rightarrow> py_error + string" where
  "input_value page inp =
     (case get_values (fst inp) page of
        [] \<Rightarrow> Inl (KeyError (fst inp))
      | v # vs \<Rightarrow> Inr v)"

definition call_function :: "runtime \<Rightarrow> string \<Rightarrow> string list \<Rightarrow> figure py" where
  "call_function rt f args =
     (if f = ''update_graph''
      then (case args of [xaxis_col, color_col] \<Rightarrow> update_graph rt xaxis_col color_col
                       | _ \<Rightarrow> raise TypeError)
      else raise (NameError f))"

definition run_callback :: "runtime \<Rightarrow> callback \<Rightarrow> component \<Rightarrow> component py" where
  "run_callback rt cb page =
     bnd (lift (rmap (input_value page) (cb_inputs cb))) (\<lambda>args.
     bnd (call_function rt (cb_function cb) args) (\<lambda>fig.
     ret (set_figure (fst (cb_output cb)) fig page)))"

fun run_callbacks :: "runtime \<Rightarrow> callback list \<Rightarrow> component \<Rightarrow> component py" where
  "run_callbacks rt [] page = ret page"
| "run_callbacks rt (cb # cbs) page = bnd (run_callback rt cb page) (run_callbacks rt cbs)"

definition on_change :: "runtime \<Rightarrow> nat \<Rightarrow> string \<Rightarrow> string \<Rightarrow> component \<Rightarrow> component py" where
  "on_change rt a i v page =
     bnd (read_app a) (\<lambda>app.
       run_callbacks rt
         (filter (\<lambda>cb. (i, ''value'') \<in> set (cb_inputs cb)) (app_callbacks app))
         (set_value i v page))"

section \<open>Predicates on states\<close>

text \<open>
  \<open>unchanged s0 s\<close>: in \<open>s\<close> the name \<open>gss_clean\<close> is bound as in \<open>s0\<close>, and every object that
  the store of \<open>s0\<close> holds is in \<open>s\<close> at its address with its contents (the store of \<open>s\<close> may
  hold more objects after them).
\<close>

definition unchanged :: "pystate \<Rightarrow> pystate \<Rightarrow> bool" where
  "unchanged s0 s =
     (globals s ''gss_clean'' = globals s0 ''gss_clean''
      \<and> take (length (frames s0)) (frames s) = frames s0)"

text \<open>\<open>keeps I m\<close>: running \<open>m\<close> in a state that satisfies \<open>I\<close>, whether it returns or raises,
  ends in a state that satisfies \<open>I\<close>.\<close>

definition keeps :: "(pystate \<Rightarrow> bool) \<Rightarrow> 'a py \<Rightarrow> bool" where
  "keeps I m = (\<forall>s. I s \<longrightarrow> I (snd (m s)))"

text \<open>An education value that falls into one of the four bins of the callback.\<close>

definition in_education_bins :: "cell \<Rightarrow> bool" where
  "in_education_bins e = (case e of Num v \<Rightarrow> 0 < v \<and> v \<le> 25 | _ \<Rightarrow> False)"

text \<open>
  The bins as the claim states them: (0,8], (8,12], (12,16], (16,25], each with its label;
  any other value, and a missing one, has no bin.
\<close>

definition edu_bin :: "cell \<Rightarrow> cell" where
  "edu_bin e =
     (case e of
        Num v \<Rightarrow>
          (if 0 < v \<and> v \<le> 8 then Str ''<9 years''
           else if 8 < v \<and> v \<le> 12 then Str ''9-12 years''
           else if 12 < v \<and> v \<le> 16 then Str ''13-16 years''
           else if 16 < v \<and> v \<le> 25 then Str ''>16 years''
           else NaN)
      | _ \<Rightarrow> NaN)"



text \<open>The name \<open>app_final\<close> is not bound.\<close>

definition app_final_unbound :: "pystate \<Rightarrow> bool" where
  "app_final_unbound s = (globals s ''app_final'' = None)"

text \<open>
  The cleaned table written out: each column of \<open>gss_clean\<close> with the column of the frame
  read from the file that it holds, and the converted \<open>age\<close> column. Lemma
  \<open>load_and_clean_Inr\<close> below derives it from the statements of lines 11 to 26; the
  selection has succeeded there, so every selected column exists.
\<close>

definition cleaned :: "frame \<Rightarrow> series \<Rightarrow> frame" where
  "cleaned gss age =
     [(''id'', projr (get_column gss ''id'')),
      (''weight'', projr (get_column gss ''wtss'')),
      (''sex'', projr (get_column gss ''sex'')),
      (''education'', projr (get_column gss ''educ'')),
      (''region'', projr (get_column gss ''region'')),
      (''age'', age),
      (''income'', projr (get_column gss ''coninc'')),
      (''job_prestige'', projr (get_column gss ''prestg10'')),
      (''mother_job_prestige'', projr (get_column gss ''mapres10'')),
      (''father_job_prestige'', projr (get_column gss ''papres10'')),
      (''socioeconomic_index'', projr (get_column gss ''sei10'')),
      (''satjob'', projr (get_column gss ''satjob'')),
      (''relationship'', projr (get_column gss ''fechld'')),
      (''male_breadwinner'', projr (get_column gss ''fefam'')),
      (''men_bettersuited'', projr (get_column gss ''fepol'')),
      (''child_suffer'', projr (get_column gss ''fepresch'')),
      (''men_overwork'', projr (get_column gss ''meovrwrk''))]"

section \<open>Sample data\<close>

text \<open>
  A small instance used to evaluate the theorems below: a runtime whose numbers are the
  unsigned decimal numerals, and a cleaned table of four respondents.
\<close>

fun digits_value :: "nat \<Rightarrow> string \<Rightarrow> nat option" where
  "digits_value acc [] = Some acc"
| "digits_value acc (c # cs) =
     (if 48 \<le> (of_char c :: nat) \<and> (of_char c :: nat) \<le> 57
      then digits_value (10 * acc + ((of_char c :: nat) - 48)) cs else None)"

definition digits_number :: "string \<Rightarrow> rat option" where
  "digits_number s = (if s = [] then None else map_option of_nat (digits_value 0 s))"

definition sample_runtime :: runtime where
  "sample_runtime =
     \<lparr>csv_number = digits_number, py_float = digits_number,
      default_na = ['''', ''NA'', ''NaN''], groupby_observed = False\<rparr>"

definition sample_table :: frame where
  "sample_table =
     [(''male_breadwinner'',
         Series None [Str ''agree'', Str ''disagree'', NaN, Str ''agree'']),
      (''sex'', Series None [Str ''male'', Str ''female'', Str ''male'', Str ''male'']),
      (''education'', Series None [Num 12, Num 0, Num 16, Num 26])]"

definition sample_state :: pystate where
  "sample_state =
     \<lparr>frames = [sample_table], apps = [], globals = [''gss_clean'' \<mapsto> VFrame 0]\<rparr>"

definition other_state :: pystate where
  "other_state =
     \<lparr>frames = [[], sample_table], apps = [],
      globals = [''gss_clean'' \<mapsto> VFrame 1, ''other'' \<mapsto> VStr ''x'']\<rparr>"

text \<open>A survey file of four respondents with the seventeen columns the module selects and one more.\<close>

definition sample_csv :: csv_file where
  "sample_csv =
     [(''id'', [''1'', ''2'', ''3'', ''4'']),
      (''wtss'', [''1'', ''1'', ''2'', ''1'']),
      (''sex'', [''male'', ''female'', ''female'', ''male'']),
      (''educ'', [''12'', ''16'', ''0'', ''IAP'']),
      (''region'', [''south'', ''west'', ''DK'', ''south'']),
      (''age'', [''89 or older'', ''40'', ''23'', '''']),
      (''coninc'', [''1000'', ''3000'', ''2001'', ''1001'']),
      (''prestg10'', [''30'', ''60'', ''45'', ''.a'']),
      (''mapres10'', [''30'', ''60'', ''45'', ''20'']),
      (''papres10'', [''30'', ''60'', ''45'', ''20'']),
      (''sei10'', [''30'', ''61'', ''46'', ''20'']),
      (''satjob'', [''very satisfied'', ''IAP'', ''a little dissat'', ''very satisfied'']),
      (''fechld'', [''agree'', ''agree'', ''disagree'', ''agree'']),
      (''fefam'', [''agree'', ''disagree'', ''disagree'', ''agree'']),
      (''fepol'', [''agree'', ''disagree'', ''NOT SURE'', ''agree'']),
      (''fepresch'', [''agree'', ''disagree'', ''disagree'', ''CAN'T CHOOSE'']),
      (''meovrwrk'', [''agree'', ''disagree'', ''disagree'', ''agree'']),
      (''year'', [''2018'', ''2018'', ''2018'', ''2018''])]"



section \<open>Basic facts\<close>

lemma rbind_simps [simp]:
  "rbind (Inl e) f = Inl e" "rbind (Inr x) f = f x"
  by (simp_all add: rbind_def)

lemma rbind_eq_Inr: "rbind m f = Inr y \<longleftrightarrow> (\<exists>x. m = Inr x \<and> f x = Inr y)"
  by (cases m) auto

lemma rmap_length: "rmap f xs = Inr ys \<Longrightarrow> length ys = length xs"
  by (induction xs arbitrary: ys) (auto simp: rbind_eq_Inr)

lemma rmap_nth: "rmap f xs = Inr ys \<Longrightarrow> i < length xs \<Longrightarrow> f (xs ! i) = Inr (ys ! i)"
proof (induction xs arbitrary: ys i)
  case Nil then show ?case by simp
next
  case (Cons x xs)
  then show ?case by (cases i) (auto simp: rbind_eq_Inr)
qed

lemma set_insort_cell: "set (insort_cell x xs) = insert x (set xs)"
  by (induction xs) auto

lemma distinct_insort_cell: "distinct (insort_cell x xs) = (x \<notin> set xs \<and> distinct xs)"
  by (induction xs) (auto simp: set_insort_cell)

lemma set_sort_cells: "set (sort_cells xs) = set xs"
  unfolding sort_cells_def by (induction xs) (auto simp: set_insort_cell)

lemma distinct_sort_cells: "distinct xs \<Longrightarrow> distinct (sort_cells xs)"
  unfolding sort_cells_def
proof (induction xs)
  case Nil then show ?case by simp
next
  case (Cons x xs)
  have "set (foldr insort_cell xs []) = set xs"
    using set_sort_cells[of xs] by (simp add: sort_cells_def)
  with Cons show ?case by (simp add: distinct_insort_cell)
qed

lemma keep_rows_zip:
  assumes "length xs = length m" "length ys = length m"
  shows "zip (map fst (filter snd (zip xs m))) (map fst (filter snd (zip ys m)))
         = map fst (filter snd (zip (zip xs ys) m))"
  using assms
proof (induction m arbitrary: xs ys)
  case Nil then show ?case by simp
next
  case (Cons b m)
  then obtain x xs' y ys' where "xs = x # xs'" "ys = y # ys'"
    by (metis length_Suc_conv)
  with Cons show ?case by auto
qed

lemma filter_mask_and:
  assumes "length ps = n"
  shows "map fst (filter snd (zip ps (and_mask (map P ps) (and_mask (map Q ps) (replicate n True)))))
         = filter (\<lambda>p. P p \<and> Q p) ps"
  using assms
proof (induction ps arbitrary: n)
  case Nil then show ?case by (simp add: and_mask_def)
next
  case (Cons p ps)
  then obtain k where "n = Suc k" by (cases n) auto
  with Cons show ?case by (auto simp: and_mask_def)
qed

lemmas py_run =
  ret_def raise_def lift_def bnd_def get_global_def set_global_def new_frame_def
  read_frame_def write_frame_def frame_var_def fig_var_def strs_var_def str_var_def
  app_var_def copy_frame_def assign_column_def

section \<open>The callback as a function of the table\<close>

lemma update_graph_unbound:
  assumes "globals s ''gss_clean'' = None"
  shows "update_graph rt x c s = (Inl (NameError ''gss_clean''), s)"
  using assms by (simp add: update_graph_def py_run)

lemma update_graph_not_frame:
  assumes "globals s ''gss_clean'' = Some v" "\<forall>a. v \<noteq> VFrame a"
  shows "update_graph rt x c s = (Inl (AttributeError ''gss_clean''), s)"
  using assms by (cases v) (simp_all add: update_graph_def py_run)

lemma update_graph_run:
  assumes "globals s ''gss_clean'' = Some (VFrame a)"
  shows "update_graph rt x c s =
           (update_graph_fig rt (frames s ! a) x c,
            s\<lparr>frames := frames s @
                 [case binned_frame (frames s ! a) c of Inl e \<Rightarrow> frames s ! a | Inr r \<Rightarrow> fst r]\<rparr>)"
  using assms
  by (simp add: update_graph_def update_graph_fig_def binned_frame_def py_run rbind_def
           split: sum.splits)

text \<open>Whatever the outcome, the callback leaves the globals alone and only adds to the store.\<close>

lemma update_graph_state:
  "\<exists>ds. snd (update_graph rt x c s) = s\<lparr>frames := frames s @ ds\<rparr>"
proof (cases "globals s ''gss_clean''")
  case None
  then have "snd (update_graph rt x c s) = s\<lparr>frames := frames s @ []\<rparr>"
    by (simp add: update_graph_unbound)
  then show ?thesis by blast
next
  case (Some v)
  show ?thesis
  proof (cases "\<exists>a. v = VFrame a")
    case True
    then obtain a where "v = VFrame a" by blast
    with Some show ?thesis by (auto simp: update_graph_run)
  next
    case False
    with Some have "snd (update_graph rt x c s) = s\<lparr>frames := frames s @ []\<rparr>"
      by (simp add: update_graph_not_frame)
    then show ?thesis by blast
  qed
qed

lemma invocations_state:
  "\<exists>ds. invocations rt hist s = s\<lparr>frames := frames s @ ds\<rparr>"
proof (induction hist arbitrary: s)
  case Nil
  have "invocations rt [] s = s\<lparr>frames := frames s @ []\<rparr>"
    by (simp add: invocations_def)
  then show ?case by blast
next
  case (Cons h hist)
  obtain x c where h: "h = (x, c)" by (cases h)
  obtain ds where 1: "snd (update_graph rt x c s) = s\<lparr>frames := frames s @ ds\<rparr>"
    using update_graph_state by blast
  obtain es where 2: "invocations rt hist (s\<lparr>frames := frames s @ ds\<rparr>)
      = (s\<lparr>frames := frames s @ ds\<rparr>)\<lparr>frames := frames (s\<lparr>frames := frames s @ ds\<rparr>) @ es\<rparr>"
    using Cons.IH by blast
  have "invocations rt (h # hist) s = s\<lparr>frames := frames s @ (ds @ es)\<rparr>"
    using 1 2 by (simp add: invocations_def h)
  then show ?case by blast
qed

section \<open>dropna and groupby\<close>


lemma map_of_map_snd:
  "map_of (map (\<lambda>(n, s). (n, f s)) df) a = map_option f (map_of df a)"
  by (induction df) auto

lemma get_column_Inr: "get_column df a = Inr A \<longleftrightarrow> map_of df a = Some A"
  by (auto simp: get_column_def split: option.splits)

lemma wf_frame_column:
  assumes "wf_frame df" "get_column df a = Inr A"
  shows "length (vals A) = nrows df" "wf_series A"
proof -
  have "(a, A) \<in> set df" using assms(2) by (simp add: get_column_Inr map_of_SomeD)
  with assms(1) show "length (vals A) = nrows df" "wf_series A"
    by (auto simp: wf_frame_def list_all_iff)
qed

lemma and_mask_notna:
  assumes "length xs = n" "length ys = n"
  shows "and_mask (map (\<lambda>v. v \<noteq> NaN) xs) (and_mask (map (\<lambda>v. v \<noteq> NaN) ys) (replicate n True))
         = and_mask (map (\<lambda>p. fst p \<noteq> NaN) (zip xs ys))
             (and_mask (map (\<lambda>p. snd p \<noteq> NaN) (zip xs ys)) (replicate n True))"
proof -
  have "map (\<lambda>p. fst p \<noteq> NaN) (zip xs ys) = map (\<lambda>v. v \<noteq> NaN) (map fst (zip xs ys))"
    by (simp add: comp_def)
  moreover have "map (\<lambda>p. snd p \<noteq> NaN) (zip xs ys) = map (\<lambda>v. v \<noteq> NaN) (map snd (zip xs ys))"
    by (simp add: comp_def)
  ultimately show ?thesis using assms by simp
qed

lemma length_and_mask: "length (and_mask m1 m2) = min (length m1) (length m2)"
  by (simp add: and_mask_def)

text \<open>The rows that dropna keeps, seen on the two inspected columns.\<close>

lemma dropna_pairs:
  assumes "length (vals A) = nrows df" "length (vals B) = nrows df"
  shows "zip (vals (keep_rows (complete_mask df [A, B]) A))
             (vals (keep_rows (complete_mask df [A, B]) B))
         = filter (\<lambda>(u, v). u \<noteq> NaN \<and> v \<noteq> NaN) (zip (vals A) (vals B))"
proof -
  let ?n = "nrows df"
  let ?ps = "zip (vals A) (vals B)"
  let ?m = "complete_mask df [A, B]"
  have m: "?m = and_mask (map (\<lambda>p. fst p \<noteq> NaN) ?ps)
                  (and_mask (map (\<lambda>p. snd p \<noteq> NaN) ?ps) (replicate ?n True))"
    using and_mask_notna [OF assms] by (simp add: complete_mask_def notna_def)
  have len: "length ?m = ?n" using assms by (simp add: m length_and_mask)
  have "zip (vals (keep_rows ?m A)) (vals (keep_rows ?m B))
        = map fst (filter snd (zip ?ps ?m))"
    using keep_rows_zip [of "vals A" ?m "vals B"] assms len by (simp add: keep_rows_def)
  also have "\<dots> = filter (\<lambda>p. fst p \<noteq> NaN \<and> snd p \<noteq> NaN) ?ps"
    unfolding m using filter_mask_and [of ?ps ?n] assms by simp
  also have "\<dots> = filter (\<lambda>(u, v). u \<noteq> NaN \<and> v \<noteq> NaN) ?ps"
    by (rule filter_cong) auto
  finally show ?thesis .
qed

lemma key_pairs_keep_rows:
  assumes "length (vals A) = nrows df" "length (vals B) = nrows df"
  shows "key_pairs (keep_rows (complete_mask df [A, B]) A) (keep_rows (complete_mask df [A, B]) B)
         = key_pairs A B"
  unfolding key_pairs_def dropna_pairs [OF assms] by simp

lemma cats_keep_rows [simp]: "cats (keep_rows m s) = cats s"
  by (simp add: keep_rows_def)

lemma group_keys_keep_rows:
  assumes "length (vals A) = nrows df" "length (vals B) = nrows df"
  shows "group_keys obs (keep_rows (complete_mask df [A, B]) A) (keep_rows (complete_mask df [A, B]) B)
         = group_keys obs A B"
  by (simp add: group_keys_def key_pairs_keep_rows [OF assms] group_levels_def)

lemma dropna_subset_two:
  assumes "dropna_subset df [a, b] = Inr p"
  shows "\<exists>A B. get_column df a = Inr A \<and> get_column df b = Inr B
           \<and> get_column p a = Inr (keep_rows (complete_mask df [A, B]) A)
           \<and> get_column p b = Inr (keep_rows (complete_mask df [A, B]) B)"
proof -
  from assms obtain A B where AB: "get_column df a = Inr A" "get_column df b = Inr B"
    and p: "p = map (\<lambda>(n, s). (n, keep_rows (complete_mask df [A, B]) s)) df"
    by (auto simp: dropna_subset_def rbind_eq_Inr)
  show ?thesis
    using AB by (auto simp: p get_column_Inr map_of_map_snd)
qed

lemma group_levels_distinct:
  assumes "wf_series s"
  shows "distinct (group_levels obs s present)"
  using assms
  by (auto simp: group_levels_def wf_series_def distinct_sort_cells split: option.splits)

lemma group_levels_mem:
  assumes "wf_series s" "u \<in> set present" "u \<noteq> NaN" "u \<in> set (vals s)"
  shows "u \<in> set (group_levels obs s present)"
  using assms
  by (auto simp: group_levels_def wf_series_def set_sort_cells list_all_iff split: option.splits)

lemma group_levels_not_missing:
  assumes "wf_series s" "NaN \<notin> set present"
  shows "NaN \<notin> set (group_levels obs s present)"
  using assms
  by (auto simp: group_levels_def wf_series_def set_sort_cells split: option.splits)

lemma group_keys_distinct:
  assumes "wf_series A" "wf_series B"
  shows "distinct (group_keys obs A B)"
  using assms
  by (simp add: group_keys_def Let_def distinct_product group_levels_distinct)

lemma key_pairs_mem:
  assumes "(u, v) \<in> set (key_pairs A B)"
  shows "u \<noteq> NaN" "v \<noteq> NaN" "u \<in> set (vals A)" "v \<in> set (vals B)"
  using assms by (auto simp: key_pairs_def dest: set_zip_leftD set_zip_rightD)

lemma group_keys_complete:
  assumes "wf_series A" "wf_series B"
  shows "set (key_pairs A B) \<subseteq> set (group_keys obs A B)"
proof
  fix k assume k: "k \<in> set (key_pairs A B)"
  obtain u v where uv: "k = (u, v)" by (cases k)
  have m: "(u, v) \<in> set (key_pairs A B)" using k uv by simp
  have pu: "u \<in> set (map fst (key_pairs A B))" using m by force
  have pv: "v \<in> set (map snd (key_pairs A B))" using m by force
  have "u \<in> set (group_levels obs A (map fst (key_pairs A B)))"
    by (rule group_levels_mem [OF assms(1) pu key_pairs_mem(1) [OF m] key_pairs_mem(3) [OF m]])
  moreover have "v \<in> set (group_levels obs B (map snd (key_pairs A B)))"
    by (rule group_levels_mem [OF assms(2) pv key_pairs_mem(2) [OF m] key_pairs_mem(4) [OF m]])
  ultimately show "k \<in> set (group_keys obs A B)"
    using m uv by (simp add: group_keys_def Let_def)
qed

lemma group_keys_not_missing:
  assumes "wf_series A" "wf_series B" "(u, v) \<in> set (group_keys obs A B)"
  shows "u \<noteq> NaN \<and> v \<noteq> NaN"
proof -
  have u: "u \<in> set (group_levels obs A (map fst (key_pairs A B)))"
    and v: "v \<in> set (group_levels obs B (map snd (key_pairs A B)))"
    using assms(3) by (auto simp: group_keys_def Let_def)
  have "NaN \<notin> set (map fst (key_pairs A B))"
    using key_pairs_mem(1) [of NaN _ A B] by auto
  then have 1: "NaN \<notin> set (group_levels obs A (map fst (key_pairs A B)))"
    by (rule group_levels_not_missing [OF assms(1)])
  have "NaN \<notin> set (map snd (key_pairs A B))"
    using key_pairs_mem(2) [of _ NaN A B] by auto
  then have 2: "NaN \<notin> set (group_levels obs B (map snd (key_pairs A B)))"
    by (rule group_levels_not_missing [OF assms(2)])
  show ?thesis using u v 1 2 by auto
qed

lemma searchsorted_left_le: "searchsorted_left bins v \<le> length bins"
  by (simp add: searchsorted_left_def length_takeWhile_le)

lemma cut_cell_result:
  assumes "cut_cell bins labels c = Inr r" "Suc (length labels) = length bins"
  shows "r \<in> set (NaN # labels)"
proof (cases c)
  case (Num x)
  let ?k = "searchsorted_left bins x"
  show ?thesis
  proof (cases "?k = 0 \<or> ?k = length bins")
    case True
    with assms Num show ?thesis by (auto simp: cut_cell_def Let_def)
  next
    case False
    then have "?k - 1 < length labels"
      using searchsorted_left_le [of bins x] assms(2) by arith
    moreover have "r = labels ! (?k - 1)"
      using False assms(1) Num by (auto simp: cut_cell_def Let_def)
    ultimately show ?thesis by simp
  qed
qed (use assms in \<open>auto simp: cut_cell_def\<close>)

lemma rmap_all:
  assumes "rmap f xs = Inr ys" "\<And>x y. f x = Inr y \<Longrightarrow> P y"
  shows "list_all P ys"
  using assms by (induction xs arbitrary: ys) (auto simp: rbind_eq_Inr)

lemma cut_bins_wf:
  assumes "cut_bins e bins labels = Inr b" "distinct labels"
  shows "wf_series b" "length (vals b) = length (vals e)"
proof -
  from assms(1) obtain vs where len: "Suc (length labels) = length bins"
    and vs: "rmap (cut_cell bins (map Str labels)) (vals e) = Inr vs"
    and b: "b = Series (Some (map Str labels)) vs"
    by (auto simp: cut_bins_def rbind_eq_Inr split: if_splits)
  have "list_all (\<lambda>v. v \<in> set (NaN # map Str labels)) vs"
    by (rule rmap_all [OF vs]) (use len in \<open>auto dest!: cut_cell_result\<close>)
  moreover have "distinct (map Str labels)"
    using assms(2) by (simp add: distinct_map inj_on_def)
  ultimately show "wf_series b" by (auto simp: b wf_series_def)
  show "length (vals b) = length (vals e)" using rmap_length [OF vs] by (simp add: b)
qed

lemma nrows_update:
  assumes "wf_frame df" "length (vals s) = nrows df"
  shows "nrows (AList.update n s df) = nrows df"
  using assms by (cases df) (auto simp: nrows_def wf_frame_def)

lemma list_all_update:
  assumes "list_all (\<lambda>(n, s). P s) df" "P s"
  shows "list_all (\<lambda>(n, s). P s) (AList.update k s df)"
  using assms by (induction df) auto

lemma wf_frame_set_column:
  assumes "wf_frame df" "length (vals s) = nrows df" "wf_series s"
  shows "wf_frame (set_column df n s)"
proof -
  have "list_all (\<lambda>(n, t). length (vals t) = nrows df \<and> wf_series t) (AList.update n s df)"
    using assms by (intro list_all_update) (auto simp: wf_frame_def)
  then show ?thesis
    using nrows_update [OF assms(1,2)] by (simp add: wf_frame_def set_column_def)
qed

lemma binned_frame_wf:
  assumes "wf_frame g" "binned_frame g c = Inr (d, cp)"
  shows "wf_frame d"
proof (cases "c = ''education''")
  case False
  with assms show ?thesis by (simp add: binned_frame_def)
next
  case True
  with assms(2) obtain e b where e: "get_column g ''education'' = Inr e"
    and b: "cut_bins e [0, 8, 12, 16, 25]
              [''<9 years'', ''9-12 years'', ''13-16 years'', ''>16 years''] = Inr b"
    and d: "d = set_column g ''education_binned'' b"
    by (auto simp: binned_frame_def rbind_eq_Inr)
  have "wf_series b" "length (vals b) = length (vals e)"
    using cut_bins_wf [OF b] by simp_all
  then show ?thesis
    using wf_frame_column(1) [OF assms(1) e] assms(1) by (simp add: d wf_frame_set_column)
qed

section \<open>The data of the bar chart\<close>

lemma px_bar_Inr:
  assumes "px_bar df x y c bm labels = Inr fig"
  shows "fig = (new_figure BarFig df)
              \<lparr>fig_x := Some x, fig_y := Some y, fig_color := Some c,
               fig_barmode := Some bm, fig_labels := labels\<rparr>"
  using assms by (auto simp: px_bar_def rbind_eq_Inr)

lemma groupby_size_Inr:
  assumes "groupby_size rt df a b cnt = Inr gr"
  shows "\<exists>A B. get_column df a = Inr A \<and> get_column df b = Inr B
          \<and> gr = [(a, Series (cats A) (map fst (group_keys (groupby_observed rt) A B))),
                  (b, Series (cats B) (map snd (group_keys (groupby_observed rt) A B))),
                  (cnt, Series None
                     (map (\<lambda>k. Num (of_nat (count_list (key_pairs A B) k)))
                        (group_keys (groupby_observed rt) A B)))]"
  using assms by (auto simp: groupby_size_def rbind_eq_Inr Let_def split: if_splits)

lemma update_graph_fig_data:
  assumes "wf_frame g" "update_graph_fig rt g x c = Inr fig"
  shows "\<exists>d cp A B.
           binned_frame g c = Inr (d, cp)
         \<and> get_column d x = Inr A \<and> get_column d cp = Inr B
         \<and> wf_series A \<and> wf_series B
         \<and> fig_kind fig = BarFig \<and> fig_x fig = Some x \<and> fig_y fig = Some ''count''
         \<and> fig_color fig = Some cp
         \<and> fig_data fig =
             [(x, Series (cats A) (map fst (group_keys (groupby_observed rt) A B))),
              (cp, Series (cats B) (map snd (group_keys (groupby_observed rt) A B))),
              (''count'', Series None
                 (map (\<lambda>k. Num (of_nat (count_list (key_pairs A B) k)))
                    (group_keys (groupby_observed rt) A B)))]"
proof -
  from assms(2) obtain d cp p gr f0 where
        bf: "binned_frame g c = Inr (d, cp)"
    and dp: "dropna_subset d [x, cp] = Inr p"
    and gs: "groupby_size rt p x cp ''count'' = Inr gr"
    and pb: "px_bar gr x ''count'' cp ''group''
               (dict_of [(x, title (str_replace ''_'' '' '' x)),
                         (''count'', ''Number of Respondents''),
                         (cp, title (str_replace ''_binned'' '''' c))]) = Inr f0"
    and fig: "fig = update_layout
               [(''transition_duration'', LNum 500), (''plot_bgcolor'', LStr ''#222222''),
                (''paper_bgcolor'', LStr ''#111111''), (''font_color'', LStr ''#FFFFFF'')] f0"
    by (auto simp: update_graph_fig_def rbind_eq_Inr)
  have wfd: "wf_frame d" by (rule binned_frame_wf [OF assms(1) bf])
  from dropna_subset_two [OF dp] obtain A B where
        A: "get_column d x = Inr A" and B: "get_column d cp = Inr B"
    and pA: "get_column p x = Inr (keep_rows (complete_mask d [A, B]) A)"
    and pB: "get_column p cp = Inr (keep_rows (complete_mask d [A, B]) B)"
    by blast
  have lA: "length (vals A) = nrows d" and lB: "length (vals B) = nrows d"
    using wf_frame_column(1) [OF wfd] A B by simp_all
  have wA: "wf_series A" and wB: "wf_series B"
    using wf_frame_column(2) [OF wfd] A B by simp_all
  from groupby_size_Inr [OF gs] pA pB have
    gr: "gr = [(x, Series (cats A) (map fst (group_keys (groupby_observed rt) A B))),
               (cp, Series (cats B) (map snd (group_keys (groupby_observed rt) A B))),
               (''count'', Series None
                  (map (\<lambda>k. Num (of_nat (count_list (key_pairs A B) k)))
                     (group_keys (groupby_observed rt) A B)))]"
    by (simp add: group_keys_keep_rows [OF lA lB] key_pairs_keep_rows [OF lA lB])
  have "fig_kind fig = BarFig \<and> fig_x fig = Some x \<and> fig_y fig = Some ''count''
        \<and> fig_color fig = Some cp \<and> fig_data fig = gr"
    by (simp add: fig px_bar_Inr [OF pb] update_layout_def new_figure_def)
  with bf A B wA wB gr show ?thesis by blast
qed

section \<open>The education bins\<close>

lemma rmap_map:
  assumes "rmap f xs = Inr ys"
  shows "ys = map (\<lambda>x. projr (f x)) xs" "list_all (\<lambda>x. \<not> isl (f x)) xs"
  using assms by (induction xs arbitrary: ys) (auto simp: rbind_eq_Inr)

text \<open>The education bins, case by case.\<close>

lemma education_bin:
  "cut_cell [0, 8, 12, 16, 25]
     [Str ''<9 years'', Str ''9-12 years'', Str ''13-16 years'', Str ''>16 years''] (Num v)
   = Inr (if v \<le> 0 then NaN
          else if v \<le> 8 then Str ''<9 years''
          else if v \<le> 12 then Str ''9-12 years''
          else if v \<le> 16 then Str ''13-16 years''
          else if v \<le> 25 then Str ''>16 years''
          else NaN)"
  by (simp add: cut_cell_def searchsorted_left_def Let_def)

lemma education_bin_missing:
  assumes "cut_cell [0, 8, 12, 16, 25]
     (map Str [''<9 years'', ''9-12 years'', ''13-16 years'', ''>16 years'']) e = Inr r"
  shows "r \<noteq> NaN \<longleftrightarrow> in_education_bins e"
proof (cases e)
  case (Num v)
  with assms show ?thesis by (auto simp: education_bin in_education_bins_def split: if_splits)
qed (use assms in \<open>auto simp: cut_cell_def in_education_bins_def\<close>)

lemma sum_counts:
  assumes "distinct ks" "set rows \<subseteq> set ks"
  shows "sum_list (map (count_list rows) ks) = length rows"
proof -
  have "sum_list (map (count_list rows) ks) = sum (count_list rows) (set ks)"
    using assms(1) by (simp add: sum_list_distinct_conv_sum_set)
  also have "\<dots> = length rows"
    using assms(2) by (simp add: sum_count_set)
  finally show ?thesis .
qed

lemma numbers_map_Num: "numbers (map (\<lambda>k. Num (f k)) ks) = map f ks"
  by (induction ks) (auto simp: numbers_def)

lemma sum_list_of_nat: "sum_list (map (\<lambda>k. (of_nat (f k) :: rat)) ks) = of_nat (sum_list (map f ks))"
  by (induction ks) auto

lemma binned_rows:
  assumes "rmap (cut_cell [0, 8, 12, 16, 25]
     (map Str [''<9 years'', ''9-12 years'', ''13-16 years'', ''>16 years''])) es = Inr bs"
  shows "length (filter (\<lambda>(u, v). u \<noteq> NaN \<and> v \<noteq> NaN) (zip xs bs))
         = length (filter (\<lambda>(u, e). u \<noteq> NaN \<and> in_education_bins e) (zip xs es))"
  using assms
proof (induction es arbitrary: bs xs)
  case Nil
  then show ?case by simp
next
  case (Cons e es)
  then obtain b bs' where bs: "bs = b # bs'"
    and b: "cut_cell [0, 8, 12, 16, 25]
     (map Str [''<9 years'', ''9-12 years'', ''13-16 years'', ''>16 years'']) e = Inr b"
    and r: "rmap (cut_cell [0, 8, 12, 16, 25]
     (map Str [''<9 years'', ''9-12 years'', ''13-16 years'', ''>16 years''])) es = Inr bs'"
    by (auto simp: rbind_eq_Inr)
  show ?case
  proof (cases xs)
    case Nil then show ?thesis by simp
  next
    case (Cons x xs')
    then show ?thesis
      using Cons.IH [OF r, of xs'] education_bin_missing [OF b] by (simp add: bs)
  qed
qed


lemma get_column_set_column:
  "get_column (set_column df n s) m = (if m = n then Inr s else get_column df m)"
  by (simp add: get_column_def set_column_def update_conv')

lemma rmap_education_bins:
  assumes "rmap (cut_cell [0, 8, 12, 16, 25]
     [Str ''<9 years'', Str ''9-12 years'', Str ''13-16 years'', Str ''>16 years'']) es = Inr bs"
  shows "bs = map edu_bin es"
  using assms
proof (induction es arbitrary: bs)
  case Nil
  then show ?case by simp
next
  case (Cons e es)
  then obtain b bs' where bs: "bs = b # bs'"
    and b: "cut_cell [0, 8, 12, 16, 25]
     [Str ''<9 years'', Str ''9-12 years'', Str ''13-16 years'', Str ''>16 years''] e = Inr b"
    and r: "rmap (cut_cell [0, 8, 12, 16, 25]
     [Str ''<9 years'', Str ''9-12 years'', Str ''13-16 years'', Str ''>16 years'']) es = Inr bs'"
    by (auto simp: rbind_eq_Inr)
  have "b = edu_bin e"
  proof (cases e)
    case (Num v)
    with b show ?thesis by (auto simp: education_bin edu_bin_def split: if_splits)
  qed (use b in \<open>auto simp: cut_cell_def edu_bin_def\<close>)
  with Cons.IH [OF r] show ?case by (simp add: bs)
qed

lemma cut_bins_education:
  assumes "cut_bins E [0, 8, 12, 16, 25]
              [''<9 years'', ''9-12 years'', ''13-16 years'', ''>16 years''] = Inr b"
  shows "b = Series (Some [Str ''<9 years'', Str ''9-12 years'', Str ''13-16 years'',
                          Str ''>16 years'']) (map edu_bin (vals E))"
  using assms by (auto simp: cut_bins_def rbind_eq_Inr dest: rmap_education_bins)


lemma edu_bin_missing: "(edu_bin e = NaN) = (\<not> in_education_bins e)"
  by (cases e) (auto simp: edu_bin_def in_education_bins_def)

section \<open>What the statements leave alone\<close>

lemma keeps_bnd:
  assumes "keeps I m" "\<And>x. keeps I (f x)"
  shows "keeps I (bnd m f)"
  using assms unfolding keeps_def bnd_def
  by (fastforce split: prod.splits sum.splits)

lemma keeps_pure [simp]:
  "keeps I (ret x)" "keeps I (raise e)" "keeps I (lift r)" "keeps I (get_global n)"
  "keeps I (read_frame a)" "keeps I (read_app a)"
  by (auto simp: keeps_def py_run read_app_def split: option.splits)

lemma keeps_vars [simp]:
  "keeps I (frame_var n)" "keeps I (fig_var n)" "keeps I (strs_var n)" "keeps I (str_var n)"
  "keeps I (app_var n)"
  by (auto simp: keeps_def py_run split: option.splits pyval.splits)

lemma keeps_get_attr [simp]: "keeps I (get_attr a n)"
  by (auto simp: keeps_def py_run get_attr_def split: option.splits)

lemma take_prefix_iff: "take (length xs) ys = xs \<longleftrightarrow> (\<exists>ds. ys = xs @ ds)"
  by (metis append_eq_conv_conj append_take_drop_id)

lemma unchanged_iff:
  "unchanged s0 s \<longleftrightarrow>
     globals s ''gss_clean'' = globals s0 ''gss_clean'' \<and> (\<exists>ds. frames s = frames s0 @ ds)"
  by (simp add: unchanged_def take_prefix_iff)

lemma keeps_unchanged_new_frame [simp]: "keeps (unchanged s0) (new_frame df)"
  by (auto simp: keeps_def unchanged_iff py_run)

lemma keeps_unchanged_set_global [simp]:
  "n \<noteq> ''gss_clean'' \<Longrightarrow> keeps (unchanged s0) (set_global n v)"
  by (auto simp: keeps_def unchanged_iff py_run)

lemma keeps_run_all:
  assumes "list_all (keeps I) ms"
  shows "keeps I (run_all ms)"
  using assms by (induction ms) (auto intro: keeps_bnd)

lemma bnd_assoc: "bnd (bnd m f) g = bnd m (\<lambda>x. bnd (f x) g)"
  by (auto simp: bnd_def fun_eq_iff split: prod.splits sum.splits)

lemma run_all_append: "run_all (ms @ ns) = bnd (run_all ms) (\<lambda>u. run_all ns)"
  by (induction ms) (auto simp: bnd_def ret_def fun_eq_iff split: prod.splits sum.splits)

lemma keeps_facet_cut:
  "keeps (unchanged s0) (run_all [facet_df_stmt, facet_df_cut_stmt])"
  unfolding keeps_def unchanged_iff
  by (auto simp: facet_df_stmt_def facet_df_cut_stmt_def py_run
           split: option.splits pyval.splits sum.splits)

lemma keeps_static_stmts:
  "keeps (unchanged s0) (summary_df_stmt rt)"
  "keeps (unchanged s0) summary_df_rename_stmt"
  "keeps (unchanged s0) table_fig_stmt"
  "keeps (unchanged s0) scatter_data_stmt"
  "keeps (unchanged s0) scatter_fig_stmt"
  "keeps (unchanged s0) box_data_stmt"
  "keeps (unchanged s0) income_boxplot_fig_stmt"
  "keeps (unchanged s0) income_boxplot_layout_stmt"
  "keeps (unchanged s0) prestige_boxplot_fig_stmt"
  "keeps (unchanged s0) prestige_boxplot_layout_stmt"
  "keeps (unchanged s0) facet_df_dropna_stmt"
  "keeps (unchanged s0) facet_fig_stmt"
  "keeps (unchanged s0) facet_fig_annotation_stmt"
  unfolding summary_df_stmt_def summary_df_rename_stmt_def table_fig_stmt_def
    scatter_data_stmt_def scatter_fig_stmt_def box_data_stmt_def income_boxplot_fig_stmt_def
    income_boxplot_layout_stmt_def prestige_boxplot_fig_stmt_def
    prestige_boxplot_layout_stmt_def facet_df_dropna_stmt_def facet_fig_stmt_def
    facet_fig_annotation_stmt_def
  by (intro keeps_bnd; simp)+

lemma static_figures_split:
  "static_figures rt =
     run_all ([summary_df_stmt rt, summary_df_rename_stmt, table_fig_stmt,
               scatter_data_stmt, scatter_fig_stmt,
               box_data_stmt, income_boxplot_fig_stmt, income_boxplot_layout_stmt,
               prestige_boxplot_fig_stmt, prestige_boxplot_layout_stmt]
              @ [facet_df_stmt, facet_df_cut_stmt]
              @ [facet_df_dropna_stmt, facet_fig_stmt, facet_fig_annotation_stmt])"
  by (simp add: static_figures_def)

lemma keeps_static_figures: "keeps (unchanged s0) (static_figures rt)"
  unfolding static_figures_split run_all_append
  by (intro keeps_bnd keeps_run_all keeps_facet_cut) (simp_all add: keeps_static_stmts)

lemma unchanged_update_graph: "unchanged s (snd (update_graph rt x c s))"
  using update_graph_state [of rt x c s] by (auto simp: unchanged_iff)

section \<open>Loading and cleaning\<close>

lemma select_columns_Inr:
  assumes "select_columns df cs = Inr r"
  shows "r = map (\<lambda>c. (c, projr (get_column df c))) cs"
    and "list_all (\<lambda>c. \<not> isl (get_column df c)) cs"
proof -
  have 1: "r = map (\<lambda>c. projr (rbind (get_column df c) (\<lambda>s. Inr (c, s)))) cs"
    and 2: "list_all (\<lambda>c. \<not> isl (rbind (get_column df c) (\<lambda>s. Inr (c, s)))) cs"
    using rmap_map [OF assms [unfolded select_columns_def]] by simp_all
  have 3: "\<And>c. \<not> isl (rbind (get_column df c) (\<lambda>s. Inr (c, s))) \<longleftrightarrow> \<not> isl (get_column df c)"
    by (simp add: rbind_def split: sum.splits)
  show "list_all (\<lambda>c. \<not> isl (get_column df c)) cs" using 2 by (simp add: 3)
  then have "\<And>c. c \<in> set cs \<Longrightarrow> projr (rbind (get_column df c) (\<lambda>s. Inr (c, s)))
                  = (c, projr (get_column df c))"
    by (auto simp: list_all_iff rbind_def split: sum.splits)
  then show "r = map (\<lambda>c. (c, projr (get_column df c))) cs" unfolding 1 by simp
qed

lemmas stmt_run = py_run get_attr_def set_attr_def read_app_def write_app_def new_app_def

lemma rename_map_eval:
  "rename_map =
       [(''wtss'', ''weight''), (''educ'', ''education''), (''coninc'', ''income''),
        (''prestg10'', ''job_prestige''), (''mapres10'', ''mother_job_prestige''),
        (''papres10'', ''father_job_prestige''), (''sei10'', ''socioeconomic_index''),
        (''fechld'', ''relationship''), (''fefam'', ''male_breadwinner''),
        (''fehire'', ''hire_women''), (''fejobaff'', ''preference_hire_women''),
        (''fepol'', ''men_bettersuited''), (''fepresch'', ''child_suffer''),
        (''meovrwrk'', ''men_overwork'')]"
  by (simp add: rename_map_def dict_of_def)

lemma load_and_clean_Inr:
  assumes "load_and_clean rt file initial_state = (Inr (), s)"
  shows "\<exists>sel age.
           select_columns (read_csv rt na_values file)
             [''id'', ''wtss'', ''sex'', ''educ'', ''region'', ''age'', ''coninc'',
              ''prestg10'', ''mapres10'', ''papres10'', ''sei10'', ''satjob'',
              ''fechld'', ''fefam'', ''fepol'', ''fepresch'', ''meovrwrk''] = Inr sel
         \<and> astype_float rt (replace_values (dict_of [(''89 or older'', ''89'')])
                               (projr (get_column (read_csv rt na_values file) ''age''))) = Inr age
         \<and> frames s = [read_csv rt na_values file, sel, cleaned (read_csv rt na_values file) age]
         \<and> apps s = []
         \<and> globals s =
              [''gss'' \<mapsto> VFrame 0,
               ''mycols'' \<mapsto> VStrs
                  [''id'', ''wtss'', ''sex'', ''educ'', ''region'', ''age'', ''coninc'',
                   ''prestg10'', ''mapres10'', ''papres10'', ''sei10'', ''satjob'',
                   ''fechld'', ''fefam'', ''fepol'', ''fepresch'', ''meovrwrk''],
               ''gss_clean'' \<mapsto> VFrame 2]"
  using assms
  apply (simp add: load_and_clean_def gss_stmt_def mycols_stmt_def gss_clean_select_stmt_def
      gss_clean_rename_stmt_def age_replace_stmt_def age_astype_stmt_def stmt_run initial_state_def
      split: sum.splits)
  apply (frule select_columns_Inr(1))
  apply (auto simp add: stmt_run rename_map_eval rename_columns_def columns_def set_column_def
      cleaned_def numeral_2_eq_2 split: sum.splits if_splits)
  done


lemma rmap_total:
  assumes "list_all (\<lambda>x. \<not> isl (f x)) xs"
  shows "\<exists>ys. rmap f xs = Inr ys"
  using assms
proof (induction xs)
  case Nil then show ?case by simp
next
  case (Cons x xs)
  then obtain ys y where "rmap f xs = Inr ys" "f x = Inr y"
    by (cases "f x") auto
  then show ?case by simp
qed

lemma cut_bins_numeric:
  assumes "is_numeric s" "Suc (length labels) = length bins"
  shows "\<exists>b. cut_bins s bins labels = Inr b"
proof -
  have "list_all (\<lambda>v. \<not> isl (cut_cell bins (map Str labels) v)) (vals s)"
    using assms(1)
    by (auto simp: is_numeric_def list_all_iff cut_cell_def Let_def split: cell.splits)
  from rmap_total [OF this] obtain vs
    where "rmap (cut_cell bins (map Str labels)) (vals s) = Inr vs" by blast
  then show ?thesis using assms(2) by (simp add: cut_bins_def)
qed

lemma get_column_total: "c \<in> set (columns df) \<Longrightarrow> \<exists>s. get_column df c = Inr s"
  by (cases "map_of df c") (auto simp: get_column_def columns_def map_of_eq_None_iff)

lemma get_column_columns: "get_column df c = Inr s \<Longrightarrow> c \<in> set (columns df)"
  by (auto simp: get_column_Inr columns_def dest!: map_of_SomeD intro: rev_image_eqI)

lemma columns_set_column: "set (columns (set_column df n s)) = insert n (set (columns df))"
  by (simp add: columns_def set_column_def update_conv' flip: dom_map_of_conv_image_fst)

lemma dropna_subset_total:
  assumes "a \<in> set (columns df)" "b \<in> set (columns df)"
  shows "\<exists>p. dropna_subset df [a, b] = Inr p \<and> columns p = columns df"
proof -
  obtain A B where "get_column df a = Inr A" "get_column df b = Inr B"
    using assms get_column_total by blast
  then show ?thesis
    by (simp add: dropna_subset_def columns_def case_prod_beta comp_def)
qed

lemma groupby_size_total:
  assumes "a \<in> set (columns df)" "b \<in> set (columns df)" "a \<noteq> b" "a \<noteq> cnt" "b \<noteq> cnt"
  shows "\<exists>gr. groupby_size rt df a b cnt = Inr gr \<and> columns gr = [a, b, cnt]"
proof -
  obtain A B where "get_column df a = Inr A" "get_column df b = Inr B"
    using assms get_column_total by blast
  then show ?thesis
    using assms by (simp add: groupby_size_def Let_def columns_def)
qed

lemma update_graph_fig_total:
  assumes "x \<in> set (columns g)" "c \<in> set (columns g)"
      and "x \<noteq> c" "x \<noteq> ''count''" "c \<noteq> ''count''" "x \<noteq> ''education_binned''"
      and "c = ''education'' \<longrightarrow> (\<exists>E. get_column g ''education'' = Inr E \<and> is_numeric E)"
  shows "\<exists>fig. update_graph_fig rt g x c = Inr fig
           \<and> fig_color fig = Some (if c = ''education'' then ''education_binned'' else c)"
proof -
  let ?cp = "if c = ''education'' then ''education_binned'' else c"
  have "\<exists>d. binned_frame g c = Inr (d, ?cp) \<and> x \<in> set (columns d) \<and> ?cp \<in> set (columns d)"
  proof (cases "c = ''education''")
    case False
    with assms(1,2) show ?thesis by (simp add: binned_frame_def)
  next
    case True
    with assms(7) obtain E where E: "get_column g ''education'' = Inr E" "is_numeric E"
      by blast
    from cut_bins_numeric [OF E(2), of "[''<9 years'', ''9-12 years'', ''13-16 years'', ''>16 years'']"
        "[0, 8, 12, 16, 25]"]
    obtain b where "cut_bins E [0, 8, 12, 16, 25]
        [''<9 years'', ''9-12 years'', ''13-16 years'', ''>16 years''] = Inr b"
      by auto
    with True E(1) assms(1) show ?thesis
      by (simp add: binned_frame_def columns_set_column)
  qed
  then obtain d where d: "binned_frame g c = Inr (d, ?cp)"
    and xd: "x \<in> set (columns d)" and cd: "?cp \<in> set (columns d)" by blast
  from dropna_subset_total [OF xd cd] obtain p
    where p: "dropna_subset d [x, ?cp] = Inr p" "columns p = columns d" by blast
  have ne: "x \<noteq> ?cp" "?cp \<noteq> ''count''" using assms(3,5,6) by auto
  from groupby_size_total [of x p ?cp "''count''" rt] xd cd p(2) ne assms(4) obtain gr
    where gr: "groupby_size rt p x ?cp ''count'' = Inr gr" "columns gr = [x, ?cp, ''count'']"
    by auto
  show ?thesis
    using d p(1) gr
    by (simp add: update_graph_fig_def px_bar_def px_columns_def update_layout_def new_figure_def)
qed

lemma columns_cleaned:
  "columns (cleaned gss age) =
     [''id'', ''weight'', ''sex'', ''education'', ''region'', ''age'', ''income'',
      ''job_prestige'', ''mother_job_prestige'', ''father_job_prestige'',
      ''socioeconomic_index'', ''satjob'', ''relationship'', ''male_breadwinner'',
      ''men_bettersuited'', ''child_suffer'', ''men_overwork'']"
  by (simp add: cleaned_def columns_def)

lemma unchanged_nth:
  assumes "unchanged s0 s" "a < length (frames s0)"
  shows "frames s ! a = frames s0 ! a"
  using assms by (auto simp: unchanged_iff nth_append)

lemma load_and_clean_total:
  assumes "select_columns (read_csv rt na_values file)
             [''id'', ''wtss'', ''sex'', ''educ'', ''region'', ''age'', ''coninc'',
              ''prestg10'', ''mapres10'', ''papres10'', ''sei10'', ''satjob'',
              ''fechld'', ''fefam'', ''fepol'', ''fepresch'', ''meovrwrk''] = Inr sel"
      and "astype_float rt (replace_values (dict_of [(''89 or older'', ''89'')])
                               (projr (get_column (read_csv rt na_values file) ''age''))) = Inr age"
  shows "fst (load_and_clean rt file initial_state) = Inr ()"
  using assms select_columns_Inr(1) [OF assms(1)]
  by (simp add: load_and_clean_def gss_stmt_def mycols_stmt_def gss_clean_select_stmt_def
      gss_clean_rename_stmt_def age_replace_stmt_def age_astype_stmt_def stmt_run initial_state_def
      rename_map_eval rename_columns_def columns_def set_column_def)

lemmas sample_eval =
  get_column_def read_csv_def sample_csv_def read_csv_column_def
  sample_runtime_def na_values_def digits_number_def select_columns_def
  astype_float_def float_cell_def replace_values_def dict_of_def is_numeric_def

lemma sample_csv_loads:
  "fst (load_and_clean sample_runtime sample_csv initial_state) = Inr ()"
proof -
  have "\<exists>sel. select_columns (read_csv sample_runtime na_values sample_csv)
             [''id'', ''wtss'', ''sex'', ''educ'', ''region'', ''age'', ''coninc'',
              ''prestg10'', ''mapres10'', ''papres10'', ''sei10'', ''satjob'',
              ''fechld'', ''fefam'', ''fepol'', ''fepresch'', ''meovrwrk''] = Inr sel"
    by (simp add: sample_eval)
  moreover have "\<exists>age. astype_float sample_runtime
        (replace_values (dict_of [(''89 or older'', ''89'')])
           (projr (get_column (read_csv sample_runtime na_values sample_csv) ''age''))) = Inr age"
    by (simp add: sample_eval)
  ultimately show ?thesis using load_and_clean_total by blast
qed

section \<open>The cleaned columns\<close>







lemma get_column_Nil: "get_column [] m = Inl (KeyError m)"
  by (simp add: get_column_def)

section \<open>The metrics table\<close>








section \<open>The last statement of the module\<close>

lemma keeps_afu_store [simp]:
  "keeps app_final_unbound (new_frame df)"
  "keeps app_final_unbound (write_frame a df)"
  "keeps app_final_unbound (new_app sheets)"
  "keeps app_final_unbound (write_app b app)"
  "keeps app_final_unbound (copy_frame a)"
  "keeps app_final_unbound (assign_column a n c)"
  "keeps app_final_unbound (set_attr a n c)"
  by (auto simp: keeps_def app_final_unbound_def stmt_run)

lemma keeps_afu_set_global [simp]:
  "n \<noteq> ''app_final'' \<Longrightarrow> keeps app_final_unbound (set_global n v)"
  by (auto simp: keeps_def app_final_unbound_def py_run)

lemma keeps_afu_load_and_clean: "keeps app_final_unbound (load_and_clean rt file)"
  unfolding load_and_clean_def
  by (rule keeps_run_all)
     (simp add: gss_stmt_def mycols_stmt_def gss_clean_select_stmt_def
        gss_clean_rename_stmt_def age_replace_stmt_def age_astype_stmt_def keeps_bnd)

lemma keeps_afu_static_figures: "keeps app_final_unbound (static_figures rt)"
  unfolding static_figures_def
  by (rule keeps_run_all)
     (simp add: summary_df_stmt_def summary_df_rename_stmt_def table_fig_stmt_def
        scatter_data_stmt_def scatter_fig_stmt_def box_data_stmt_def income_boxplot_fig_stmt_def
        income_boxplot_layout_stmt_def prestige_boxplot_fig_stmt_def
        prestige_boxplot_layout_stmt_def facet_df_stmt_def facet_df_cut_stmt_def
        facet_df_dropna_stmt_def facet_fig_stmt_def facet_fig_annotation_stmt_def keeps_bnd)

lemma keeps_afu_dashboard: "keeps app_final_unbound dashboard"
  unfolding dashboard_def
  by (rule keeps_run_all)
     (simp add: xaxis_options_stmt_def color_options_stmt_def external_stylesheets_stmt_def
        app_stmt_def server_stmt_def layout_stmt_def callback_stmt_def keeps_bnd)

lemma keeps_afu_module_body: "keeps app_final_unbound (module_body rt file)"
  unfolding module_body_def
  by (rule keeps_run_all)
     (simp add: keeps_afu_load_and_clean keeps_afu_static_figures keeps_afu_dashboard
        markdown_text_stmt_def)

lemma production_server_raises:
  assumes "app_final_unbound s"
  shows "production_server_stmt s = (Inl (NameError ''app_final''), s)"
  using assms by (simp add: production_server_stmt_def app_final_unbound_def py_run)

section \<open>Claims\<close>

text \<open>
  C4. \<open>update_graph\<close> is stateless and deterministic: in two states that hold the same cleaned
  table (whatever else they hold, and at whatever address the table is stored), the same pair
  of dropdown values gives the same result; and the result after any history of earlier
  invocations is the result without that history.
\<close>

theorem update_graph_deterministic:
  assumes "globals s1 ''gss_clean'' = Some (VFrame a1)"
      and "globals s2 ''gss_clean'' = Some (VFrame a2)"
      and "frames s1 ! a1 = frames s2 ! a2"
      and "a1 < length (frames s1)"
  shows "fst (update_graph rt x c s1) = fst (update_graph rt x c s2)
         \<and> fst (update_graph rt x c (invocations rt hist s1)) = fst (update_graph rt x c s1)"
proof -
  obtain ds where ds: "invocations rt hist s1 = s1\<lparr>frames := frames s1 @ ds\<rparr>"
    using invocations_state by blast
  have g: "globals (invocations rt hist s1) ''gss_clean'' = Some (VFrame a1)"
    using assms(1) ds by simp
  have f: "frames (invocations rt hist s1) ! a1 = frames s1 ! a1"
    using assms(4) ds by (simp add: nth_append)
  show ?thesis
    using assms(1,2,3) g f by (simp add: update_graph_run)
qed

theorem update_graph_deterministic_witness:
  "fst (update_graph sample_runtime ''male_breadwinner'' ''education'' sample_state)
     = fst (update_graph sample_runtime ''male_breadwinner'' ''education'' other_state)
   \<and> fst (update_graph sample_runtime ''male_breadwinner'' ''education''
            (invocations sample_runtime [(''male_breadwinner'', ''sex'')] sample_state))
     = fst (update_graph sample_runtime ''male_breadwinner'' ''education'' sample_state)"
  using update_graph_deterministic [of sample_state 0 other_state 1 sample_runtime
          "''male_breadwinner''" "''education''" "[(''male_breadwinner'', ''sex'')]"]
  by (simp add: sample_state_def other_state_def)

text \<open>
  C3. After cleaning, \<open>gss_clean\<close> is never mutated again. For every invocation of
  \<open>update_graph\<close> (any pair of arguments, whether it returns or raises) and for the computation
  of the static figures, the state afterwards binds \<open>gss_clean\<close> as before and holds every
  object of the store as before: the callback assigns the column \<open>education_binned\<close> to its
  copy, and the faceted figure assigns \<open>prestige_category\<close> to \<open>facet_df\<close>, both new objects.
\<close>

theorem gss_clean_never_mutated:
  "unchanged s (snd (update_graph rt x c s)) \<and> unchanged s (snd (static_figures rt s))"
proof -
  have "unchanged s s" by (simp add: unchanged_def)
  then have "unchanged s (snd (static_figures rt s))"
    using keeps_static_figures [of s rt] by (simp add: keeps_def)
  then show ?thesis by (simp add: unchanged_update_graph)
qed

text \<open>
  C1. For every pair of arguments, and so for every pair of dropdown values, a figure that
  \<open>update_graph\<close> returns is a bar chart over the group-by-size aggregation of the cleaned
  table. With \<open>A\<close> the selected x-axis column and \<open>B\<close> the colour column (the binned column
  when \<open>color_col\<close> is \<open>education\<close>), the rows that remain are those where neither is missing;
  the data of the figure has one row per group key, each key once, every pair of values that
  occurs among the remaining rows is a key, and the count of a key is the number of remaining
  rows with exactly those two values.
\<close>

theorem update_graph_counts:
  assumes "globals s ''gss_clean'' = Some (VFrame a)"
      and "wf_frame (frames s ! a)"
      and "fst (update_graph rt xaxis_col color_col s) = Inr fig"
  shows "\<exists>d cp A B.
           binned_frame (frames s ! a) color_col = Inr (d, cp)
         \<and> get_column d xaxis_col = Inr A \<and> get_column d cp = Inr B
         \<and> fig_kind fig = BarFig \<and> fig_x fig = Some xaxis_col
         \<and> fig_y fig = Some ''count'' \<and> fig_color fig = Some cp
         \<and> (let remaining = filter (\<lambda>(u, v). u \<noteq> NaN \<and> v \<noteq> NaN) (zip (vals A) (vals B));
                 ks = group_keys (groupby_observed rt) A B
             in fig_data fig =
                  [(xaxis_col, Series (cats A) (map fst ks)),
                   (cp, Series (cats B) (map snd ks)),
                   (''count'', Series None (map (\<lambda>k. Num (of_nat (count_list remaining k))) ks))]
                \<and> distinct ks \<and> set remaining \<subseteq> set ks)"
proof -
  have "update_graph_fig rt (frames s ! a) xaxis_col color_col = Inr fig"
    using assms(1,3) by (simp add: update_graph_run)
  from update_graph_fig_data [OF assms(2) this] obtain d cp A B where
        1: "binned_frame (frames s ! a) color_col = Inr (d, cp)"
           "get_column d xaxis_col = Inr A" "get_column d cp = Inr B"
           "fig_kind fig = BarFig" "fig_x fig = Some xaxis_col"
           "fig_y fig = Some ''count''" "fig_color fig = Some cp"
    and w: "wf_series A" "wf_series B"
    and fd: "fig_data fig =
             [(xaxis_col, Series (cats A) (map fst (group_keys (groupby_observed rt) A B))),
              (cp, Series (cats B) (map snd (group_keys (groupby_observed rt) A B))),
              (''count'', Series None
                 (map (\<lambda>k. Num (of_nat (count_list (key_pairs A B) k)))
                    (group_keys (groupby_observed rt) A B)))]"
    by blast
  have "distinct (group_keys (groupby_observed rt) A B)"
    by (rule group_keys_distinct [OF w])
  moreover have "set (key_pairs A B) \<subseteq> set (group_keys (groupby_observed rt) A B)"
    by (rule group_keys_complete [OF w])
  ultimately show ?thesis
    using 1 fd unfolding key_pairs_def Let_def by blast
qed

theorem update_graph_counts_witness:
  "\<exists>fig d cp A B.
       fst (update_graph sample_runtime ''male_breadwinner'' ''education'' sample_state) = Inr fig
     \<and> get_column (fig_data fig) ''count'' = Inr (Series None [Num 0, Num 1, Num 0, Num 0])
     \<and> binned_frame sample_table ''education'' = Inr (d, cp)
     \<and> get_column d ''male_breadwinner'' = Inr A \<and> get_column d cp = Inr B
     \<and> fig_kind fig = BarFig \<and> fig_x fig = Some ''male_breadwinner''
     \<and> fig_y fig = Some ''count'' \<and> fig_color fig = Some cp
     \<and> (let remaining = filter (\<lambda>(u, v). u \<noteq> NaN \<and> v \<noteq> NaN) (zip (vals A) (vals B));
             ks = group_keys (groupby_observed sample_runtime) A B
         in fig_data fig =
              [(''male_breadwinner'', Series (cats A) (map fst ks)),
               (cp, Series (cats B) (map snd ks)),
               (''count'', Series None (map (\<lambda>k. Num (of_nat (count_list remaining k))) ks))]
            \<and> distinct ks \<and> set remaining \<subseteq> set ks)"
proof -
  have g: "globals sample_state ''gss_clean'' = Some (VFrame 0)"
    by (simp add: sample_state_def)
  have t: "frames sample_state ! 0 = sample_table"
    by (simp add: sample_state_def)
  have w: "wf_frame (frames sample_state ! 0)"
    unfolding t by code_simp
  have "case fst (update_graph sample_runtime ''male_breadwinner'' ''education'' sample_state) of
          Inl e \<Rightarrow> False
        | Inr fig \<Rightarrow> get_column (fig_data fig) ''count''
                     = Inr (Series None [Num 0, Num 1, Num 0, Num 0])"
    by code_simp
  then obtain fig where
        f: "fst (update_graph sample_runtime ''male_breadwinner'' ''education'' sample_state) = Inr fig"
    and c: "get_column (fig_data fig) ''count'' = Inr (Series None [Num 0, Num 1, Num 0, Num 0])"
    by (cases "fst (update_graph sample_runtime ''male_breadwinner'' ''education'' sample_state)")
       auto
  show ?thesis
    using update_graph_counts [OF g w f] f c unfolding t by blast
qed

text \<open>
  C10. With \<open>color_col = education\<close> the colour column of the chart is the education column
  binned by the right-closed intervals (0,8], (8,12], (12,16], (16,25] (\<open>edu_bin\<close>): the data
  of the figure is the group-by-size aggregation over the selected column and that binned
  column. A value at or below 0, or above 25, has a missing bin, and such a respondent is not
  counted even when the survey answer is present: the counts of the figure add up to the
  number of rows whose answer is present and whose education lies in (0,25].
\<close>

theorem education_binning_excludes:
  assumes "globals s ''gss_clean'' = Some (VFrame a)"
      and "wf_frame (frames s ! a)"
      and "xaxis_col \<in> set [''satjob'', ''relationship'', ''male_breadwinner'',
                               ''men_bettersuited'', ''child_suffer'', ''men_overwork'']"
      and "fst (update_graph rt xaxis_col ''education'' s) = Inr fig"
  shows "\<exists>X E B C.
           get_column (frames s ! a) xaxis_col = Inr X
         \<and> get_column (frames s ! a) ''education'' = Inr E
         \<and> B = Series (Some [Str ''<9 years'', Str ''9-12 years'', Str ''13-16 years'',
                              Str ''>16 years''])
                  (map edu_bin (vals E))
         \<and> C = Series None
                  (map (\<lambda>k. Num (of_nat (count_list
                                 (filter (\<lambda>(u, v). u \<noteq> NaN \<and> v \<noteq> NaN) (zip (vals X) (vals B)))
                                 k)))
                     (group_keys (groupby_observed rt) X B))
         \<and> fig_color fig = Some ''education_binned''
         \<and> fig_data fig =
             [(xaxis_col, Series (cats X) (map fst (group_keys (groupby_observed rt) X B))),
              (''education_binned'',
                 Series (cats B) (map snd (group_keys (groupby_observed rt) X B))),
              (''count'', C)]
         \<and> sum_list (numbers (vals C))
             = of_nat (length (filter (\<lambda>(u, e). u \<noteq> NaN \<and> in_education_bins e)
                                 (zip (vals X) (vals E))))
         \<and> (\<forall>e. (edu_bin e = NaN) = (\<not> in_education_bins e))"
proof -
  let ?g = "frames s ! a"
  let ?obs = "groupby_observed rt"
  have x: "xaxis_col \<noteq> ''education_binned''" "xaxis_col \<noteq> ''count''"
    using assms(3) by auto
  have "update_graph_fig rt ?g xaxis_col ''education'' = Inr fig"
    using assms(1,4) by (simp add: update_graph_run)
  from update_graph_fig_data [OF assms(2) this] obtain d cp A B where
        bf: "binned_frame ?g ''education'' = Inr (d, cp)"
    and A: "get_column d xaxis_col = Inr A" and B: "get_column d cp = Inr B"
    and w: "wf_series A" "wf_series B"
    and fc: "fig_color fig = Some cp"
    and fd: "fig_data fig =
             [(xaxis_col, Series (cats A) (map fst (group_keys ?obs A B))),
              (cp, Series (cats B) (map snd (group_keys ?obs A B))),
              (''count'', Series None
                 (map (\<lambda>k. Num (of_nat (count_list (key_pairs A B) k)))
                    (group_keys ?obs A B)))]"
    by blast
  from bf obtain E b where E: "get_column ?g ''education'' = Inr E"
    and b: "cut_bins E [0, 8, 12, 16, 25]
              [''<9 years'', ''9-12 years'', ''13-16 years'', ''>16 years''] = Inr b"
    and d: "d = set_column ?g ''education_binned'' b" and cp: "cp = ''education_binned''"
    by (auto simp: binned_frame_def rbind_eq_Inr)
  have X: "get_column ?g xaxis_col = Inr A"
    using A x by (simp add: d get_column_set_column)
  have Bb: "B = b" using B by (simp add: d cp get_column_set_column)
  have BE: "B = Series (Some [Str ''<9 years'', Str ''9-12 years'', Str ''13-16 years'',
                              Str ''>16 years'']) (map edu_bin (vals E))"
    unfolding Bb by (rule cut_bins_education [OF b])
  have rm: "rmap (cut_cell [0, 8, 12, 16, 25]
              (map Str [''<9 years'', ''9-12 years'', ''13-16 years'', ''>16 years'']))
              (vals E) = Inr (vals B)"
    using b by (auto simp: cut_bins_def rbind_eq_Inr Bb)
  let ?rows = "filter (\<lambda>(u, v). u \<noteq> NaN \<and> v \<noteq> NaN) (zip (vals A) (vals B))"
  let ?C = "Series None (map (\<lambda>k. Num (of_nat (count_list ?rows k))) (group_keys ?obs A B))"
  have rows: "key_pairs A B = ?rows" by (simp add: key_pairs_def)
  have "sum_list (numbers (vals ?C))
        = of_nat (sum_list (map (count_list ?rows) (group_keys ?obs A B)))"
    by (simp add: numbers_map_Num sum_list_of_nat)
  also have "\<dots> = of_nat (length ?rows)"
    using sum_counts [OF group_keys_distinct [OF w] group_keys_complete [OF w], of ?obs]
    unfolding rows by simp
  also have "length ?rows
             = length (filter (\<lambda>(u, e). u \<noteq> NaN \<and> in_education_bins e) (zip (vals A) (vals E)))"
    by (rule binned_rows [OF rm])
  finally have c7: "sum_list (numbers (vals ?C))
      = of_nat (length (filter (\<lambda>(u, e). u \<noteq> NaN \<and> in_education_bins e)
                          (zip (vals A) (vals E))))" .
  have c5: "fig_color fig = Some ''education_binned''" using fc cp by simp
  have c6: "fig_data fig =
             [(xaxis_col, Series (cats A) (map fst (group_keys ?obs A B))),
              (''education_binned'', Series (cats B) (map snd (group_keys ?obs A B))),
              (''count'', ?C)]"
    using fd unfolding cp rows .
  have c8: "\<forall>e. (edu_bin e = NaN) = (\<not> in_education_bins e)"
    by (simp add: edu_bin_missing)
  show ?thesis
    by (rule exI [of _ A], rule exI [of _ E], rule exI [of _ B], rule exI [of _ ?C])
       (intro conjI X E BE refl c5 c6 c7 c8)
qed

theorem education_binning_excludes_witness:
  "\<exists>fig X E B C.
       fst (update_graph sample_runtime ''male_breadwinner'' ''education'' sample_state) = Inr fig
     \<and> get_column sample_table ''male_breadwinner'' = Inr X
     \<and> get_column sample_table ''education'' = Inr E
     \<and> vals E = [Num 12, Num 0, Num 16, Num 26]
     \<and> vals B = [Str ''9-12 years'', NaN, Str ''13-16 years'', NaN]
     \<and> C = Series None
              (map (\<lambda>k. Num (of_nat (count_list
                             (filter (\<lambda>(u, v). u \<noteq> NaN \<and> v \<noteq> NaN) (zip (vals X) (vals B)))
                             k)))
                 (group_keys (groupby_observed sample_runtime) X B))
     \<and> fig_color fig = Some ''education_binned''
     \<and> fig_data fig =
         [(''male_breadwinner'',
             Series (cats X) (map fst (group_keys (groupby_observed sample_runtime) X B))),
          (''education_binned'',
             Series (cats B) (map snd (group_keys (groupby_observed sample_runtime) X B))),
          (''count'', C)]
     \<and> sum_list (numbers (vals C))
         = of_nat (length (filter (\<lambda>(u, e). u \<noteq> NaN \<and> in_education_bins e)
                             (zip (vals X) (vals E))))"
proof -
  have g: "globals sample_state ''gss_clean'' = Some (VFrame 0)"
    by (simp add: sample_state_def)
  have t: "frames sample_state ! 0 = sample_table"
    by (simp add: sample_state_def)
  have w: "wf_frame (frames sample_state ! 0)"
    unfolding t by code_simp
  have x: "''male_breadwinner'' \<in> set [''satjob'', ''relationship'', ''male_breadwinner'',
                               ''men_bettersuited'', ''child_suffer'', ''men_overwork'']"
    by simp
  have "\<not> isl (fst (update_graph sample_runtime ''male_breadwinner'' ''education'' sample_state))"
    by code_simp
  then obtain fig where
    f: "fst (update_graph sample_runtime ''male_breadwinner'' ''education'' sample_state) = Inr fig"
    by (cases "fst (update_graph sample_runtime ''male_breadwinner'' ''education'' sample_state)")
       auto
  from education_binning_excludes [OF g w x f] obtain X E B C where
        1: "get_column sample_table ''male_breadwinner'' = Inr X"
    and 2: "get_column sample_table ''education'' = Inr E"
    and 3: "B = Series (Some [Str ''<9 years'', Str ''9-12 years'', Str ''13-16 years'',
                              Str ''>16 years'']) (map edu_bin (vals E))"
    and 4: "C = Series None
              (map (\<lambda>k. Num (of_nat (count_list
                             (filter (\<lambda>(u, v). u \<noteq> NaN \<and> v \<noteq> NaN) (zip (vals X) (vals B)))
                             k)))
                 (group_keys (groupby_observed sample_runtime) X B))"
    and 5: "fig_color fig = Some ''education_binned''"
    and 6: "fig_data fig =
         [(''male_breadwinner'',
             Series (cats X) (map fst (group_keys (groupby_observed sample_runtime) X B))),
          (''education_binned'',
             Series (cats B) (map snd (group_keys (groupby_observed sample_runtime) X B))),
          (''count'', C)]"
    and 7: "sum_list (numbers (vals C))
         = of_nat (length (filter (\<lambda>(u, e). u \<noteq> NaN \<and> in_education_bins e)
                             (zip (vals X) (vals E))))"
    unfolding t by blast
  have e: "vals E = [Num 12, Num 0, Num 16, Num 26]"
    using 2 by (auto simp: get_column_def sample_table_def)
  have b: "vals B = [Str ''9-12 years'', NaN, Str ''13-16 years'', NaN]"
    unfolding 3 by (simp add: e edu_bin_def)
  show ?thesis
    by (rule exI [of _ fig], rule exI [of _ X], rule exI [of _ E], rule exI [of _ B],
        rule exI [of _ C])
       (intro conjI f 1 2 e b 4 5 6 7)
qed

text \<open>
  C9. In the state that cleaning leaves, and in every later state that holds \<open>gss_clean\<close>
  unchanged, \<open>update_graph\<close> returns a figure for each of the pairs the two dropdowns offer:
  both columns exist in the cleaned table, the colour of the chart is \<open>education_binned\<close>
  exactly when \<open>color_col\<close> is \<open>education\<close>, and no step raises. What this needs of the
  data file is that its \<open>educ\<close> column reads as numbers (\<open>pd.cut\<close> raises TypeError on text).
\<close>

theorem update_graph_returns:
  assumes "load_and_clean rt file initial_state = (Inr (), s0)"
      and "unchanged s0 s"
      and "get_column (read_csv rt na_values file) ''educ'' = Inr E"
      and "is_numeric E"
      and "xaxis_col \<in> set [''satjob'', ''relationship'', ''male_breadwinner'',
                               ''men_bettersuited'', ''child_suffer'', ''men_overwork'']"
      and "color_col \<in> set [''sex'', ''region'', ''education'']"
  shows "\<exists>a fig.
           globals s ''gss_clean'' = Some (VFrame a)
         \<and> xaxis_col \<in> set (columns (frames s ! a))
         \<and> color_col \<in> set (columns (frames s ! a))
         \<and> fst (update_graph rt xaxis_col color_col s) = Inr fig
         \<and> fig_color fig
             = Some (if color_col = ''education'' then ''education_binned'' else color_col)"
proof -
  let ?gss = "read_csv rt na_values file"
  from load_and_clean_Inr [OF assms(1)] obtain sel age where
        fr: "frames s0 = [?gss, sel, cleaned ?gss age]"
    and gl: "globals s0 ''gss_clean'' = Some (VFrame 2)"
    by auto
  have g: "globals s ''gss_clean'' = Some (VFrame 2)"
    using assms(2) gl by (simp add: unchanged_def)
  have f: "frames s ! 2 = cleaned ?gss age"
    using unchanged_nth [OF assms(2), of 2] fr by simp
  have x: "xaxis_col \<in> set (columns (cleaned ?gss age))"
    and c: "color_col \<in> set (columns (cleaned ?gss age))"
    using assms(5,6) unfolding columns_cleaned by auto
  have e: "get_column (cleaned ?gss age) ''education'' = Inr E"
    using assms(3) by (simp add: cleaned_def get_column_def)
  have "\<exists>fig. update_graph_fig rt (cleaned ?gss age) xaxis_col color_col = Inr fig
           \<and> fig_color fig
               = Some (if color_col = ''education'' then ''education_binned'' else color_col)"
    by (rule update_graph_fig_total [OF x c]) (use assms(4,5,6) e in auto)
  then show ?thesis
    using g f x c by (auto simp: update_graph_run)
qed

theorem update_graph_returns_witness:
  "\<exists>a fig.
       globals (snd (static_figures sample_runtime
                  (snd (load_and_clean sample_runtime sample_csv initial_state))))
         ''gss_clean'' = Some (VFrame a)
     \<and> fst (update_graph sample_runtime ''men_overwork'' ''education''
             (snd (static_figures sample_runtime
                (snd (load_and_clean sample_runtime sample_csv initial_state))))) = Inr fig
     \<and> fig_color fig = Some ''education_binned''"
proof -
  let ?cleaned = "snd (load_and_clean sample_runtime sample_csv initial_state)"
  let ?later = "snd (static_figures sample_runtime ?cleaned)"
  have l: "load_and_clean sample_runtime sample_csv initial_state = (Inr (), ?cleaned)"
    using sample_csv_loads by (simp add: prod_eq_iff)
  have u: "unchanged ?cleaned ?later"
    using keeps_static_figures [of ?cleaned sample_runtime] by (simp add: keeps_def unchanged_def)
  have e: "get_column (read_csv sample_runtime na_values sample_csv) ''educ''
           = Inr (Series None [Num 12, Num 16, Num 0, NaN])"
    by (simp add: sample_eval)
  have n: "is_numeric (Series None [Num 12, Num 16, Num 0, NaN])"
    by (simp add: is_numeric_def)
  have x: "''men_overwork'' \<in> set [''satjob'', ''relationship'', ''male_breadwinner'',
                               ''men_bettersuited'', ''child_suffer'', ''men_overwork'']"
    by simp
  have c: "''education'' \<in> set [''sex'', ''region'', ''education'']"
    by simp
  show ?thesis
    using update_graph_returns [OF l u e n x c] by auto
qed

text \<open>
  C2. Loading the module never runs to completion. Line 138 reads the name \<open>app_final\<close>,
  which no statement of the module binds (the application is bound to \<open>app\<close>, line 82, and
  line 83 reads \<open>app.server\<close>), so whenever lines 1 to 135 run without an exception the load
  ends with NameError at line 138; otherwise it ends with the exception of the earlier
  statement. This holds for every data file and every runtime.
\<close>

theorem module_load_raises:
  "fst (load_module rt file) \<noteq> Inr ()
   \<and> (fst (load_module rt file) = Inl (NameError ''app_final'')
      \<or> fst (load_module rt file) = fst (module_body rt file initial_state))"
proof -
  have "app_final_unbound initial_state"
    by (simp add: app_final_unbound_def initial_state_def)
  then have u: "app_final_unbound (snd (module_body rt file initial_state))"
    using keeps_afu_module_body [of rt "file"] by (simp add: keeps_def)
  show ?thesis
  proof (cases "module_body rt file initial_state")
    case (Pair r s)
    with u have s: "app_final_unbound s" by simp
    show ?thesis
    proof (cases r)
      case (Inl e)
      with Pair show ?thesis by (simp add: load_module_def bnd_def)
    next
      case (Inr v)
      with Pair production_server_raises [OF s] show ?thesis
        by (simp add: load_module_def bnd_def)
    qed
  qed
qed





end
